theory Spec2Isabelle
  imports Main
begin

section \<open>The LXD service of MicroCloud (microcloud/service/lxd.go)\<close>

text \<open>
  The file under verification defines \<open>LXDService\<close>, its constructor, the three
  cluster operations \<open>Bootstrap\<close>, \<open>Join\<close> and \<open>IssueToken\<close>, and four accessors.
  Everything the operations do goes through collaborators that live outside the file:
  the LXD client, the \<open>lxd init\<close> command, the YAML encoder, and the helpers
  \<open>configFromToken\<close>, \<open>SetupTrust\<close> and \<open>LoadServerCert\<close>.  The collaborators are
  parameters of the model (the record \<open>env\<close>); each one that touches the outside world
  takes the world and returns the changed world with its result.  Every such call is
  written to a log together with what it returned, so that the order of calls, their
  arguments and their outcomes can be read off a run.
\<close>

subsection \<open>Errors\<close>

text \<open>
  A Go \<open>error\<close> is either a plain error with a message (\<open>errors.New\<close>, \<open>fmt.Errorf\<close>
  without \<open>%w\<close>, or whatever a collaborator produced) or the result of
  \<open>fmt.Errorf("<prefix>%w", err)\<close>, which keeps \<open>err\<close> reachable through \<open>Unwrap\<close>.
\<close>

datatype error = ErrorString string | WrapError string error

fun Error :: "error \<Rightarrow> string" where
  "Error (ErrorString m) = m"
| "Error (WrapError prefix err) = prefix @ Error err"

fun Unwrap :: "error \<Rightarrow> error option" where
  "Unwrap (ErrorString m) = None"
| "Unwrap (WrapError prefix err) = Some err"

subsection \<open>Data of the LXD API that the file builds or reads\<close>

text \<open>
  Only the fields that the source names are modelled; a field the source leaves out of a
  composite literal has Go's zero value (the empty string).  \<open>api.ClusterPut\<close> embeds
  \<open>api.Cluster\<close>, which is a record extension here.
\<close>

type_synonym bytes = string

record Cluster =
  ServerName :: string
  Enabled :: bool

record ClusterPut = Cluster +
  ClusterAddress :: string
  ClusterCertificate :: string

record ClusterMembersPost =
  member_ServerName :: string

record ServerPut =
  Config :: "string \<rightharpoonup> string"

record ProfilePut =
  Devices :: "string \<rightharpoonup> (string \<rightharpoonup> string)"

record ProfilesPost =
  ProfilePut :: ProfilePut
  profile_Name :: string

record StoragePoolsPost =
  pool_Name :: string
  Driver :: string

record InitLocalPreseed =
  ServerPut :: ServerPut
  StoragePools :: "StoragePoolsPost list"
  Profiles :: "ProfilesPost list"

record InitPreseed =
  Node :: InitLocalPreseed

text \<open>Handles and values that the file passes on without looking inside them.\<close>

datatype InstanceServer = InstanceServer nat
datatype Operation = Operation nat
datatype api_Operation = api_Operation string
datatype ClusterMemberJoinToken = ClusterMemberJoinToken string
datatype CertInfo = CertInfo string

subsection \<open>The service\<close>

record LXDService =
  client :: InstanceServer
  dir :: string
  name :: string
  address :: string
  port :: int

subsection \<open>The log of calls\<close>

text \<open>One constructor per collaborator that acts on the world: its arguments, then its result.\<close>

datatype event =
    ConnectLXDUnix_ev string "error + InstanceServer"
  | RunCommandWithFds_ev bytes string "string list" "error option"
  | GetCluster_ev InstanceServer "error + Cluster \<times> string"
  | UpdateCluster_ev InstanceServer ClusterPut string "error + Operation"
  | CreateClusterMember_ev InstanceServer ClusterMembersPost "error + Operation"
  | Wait_ev Operation "error option"
  | Get_ev Operation api_Operation
  | configFromToken_ev LXDService string "error + ClusterPut"
  | LoadServerCert_ev string "error + CertInfo"
  | SetupTrust_ev CertInfo string string string string "error option"

record 'w state =
  world :: 'w
  trace :: "event list"

definition perform :: "('w \<Rightarrow> 'r \<times> 'w) \<Rightarrow> ('r \<Rightarrow> event) \<Rightarrow> 'w state \<Rightarrow> 'r \<times> 'w state" where
  "perform f ev st =
     (case f (world st) of
        (r, w') \<Rightarrow> (r, \<lparr>world = w', trace = trace st @ [ev r]\<rparr>))"

subsection \<open>The collaborators\<close>

text \<open>
  \<open>LXDPort\<close> is a constant of the package declared in another file; \<open>configFromToken\<close>
  (a method of the service) and \<open>SetupTrust\<close> are defined in other files of the package;
  the rest belongs to the Go standard library, to \<open>yaml.v2\<close> and to LXD.
  \<open>configFromToken\<close> and \<open>GetCluster\<close> return pointers; a successful return is taken
  to be non-nil.
\<close>

record 'w env =
  LXDPort :: int
  filepath_Join :: "string list \<Rightarrow> string"
  ConnectLXDUnix :: "string \<Rightarrow> 'w \<Rightarrow> (error + InstanceServer) \<times> 'w"
  CanonicalNetworkAddress :: "string \<Rightarrow> int \<Rightarrow> string"
  yaml_Marshal :: "InitPreseed \<Rightarrow> error + bytes"
  Buffer_Write :: "bytes \<Rightarrow> error option"
  RunCommandWithFds :: "bytes \<Rightarrow> string \<Rightarrow> string list \<Rightarrow> 'w \<Rightarrow> error option \<times> 'w"
  GetCluster :: "InstanceServer \<Rightarrow> 'w \<Rightarrow> (error + Cluster \<times> string) \<times> 'w"
  UpdateCluster :: "InstanceServer \<Rightarrow> ClusterPut \<Rightarrow> string \<Rightarrow> 'w \<Rightarrow> (error + Operation) \<times> 'w"
  CreateClusterMember :: "InstanceServer \<Rightarrow> ClusterMembersPost \<Rightarrow> 'w \<Rightarrow> (error + Operation) \<times> 'w"
  Operation_Wait :: "Operation \<Rightarrow> 'w \<Rightarrow> error option \<times> 'w"
  Operation_Get :: "Operation \<Rightarrow> 'w \<Rightarrow> api_Operation \<times> 'w"
  ToClusterJoinToken :: "api_Operation \<Rightarrow> error + ClusterMemberJoinToken"
  JoinToken_String :: "ClusterMemberJoinToken \<Rightarrow> string"
  configFromToken :: "LXDService \<Rightarrow> string \<Rightarrow> 'w \<Rightarrow> (error + ClusterPut) \<times> 'w"
  LoadServerCert :: "string \<Rightarrow> 'w \<Rightarrow> (error + CertInfo) \<times> 'w"
  SetupTrust :: "CertInfo \<Rightarrow> string \<Rightarrow> string \<Rightarrow> string \<Rightarrow> string \<Rightarrow> 'w \<Rightarrow> error option \<times> 'w"

subsection \<open>NewLXDService\<close>

definition NewLXDService ::
  "'w env \<Rightarrow> string \<Rightarrow> string \<Rightarrow> string \<Rightarrow> 'w state \<Rightarrow> (error + LXDService) \<times> 'w state" where
  "NewLXDService env nm addr d st =
     (let path = filepath_Join env [d, ''unix.socket'']
      in case perform (ConnectLXDUnix env path) (ConnectLXDUnix_ev path) st of
           (Inl err, st1) \<Rightarrow> (Inl (WrapError ''Failed to connect to local LXD: '' err), st1)
         | (Inr c, st1) \<Rightarrow>
             (Inr \<lparr>client = c, dir = d, name = nm, address = addr, port = LXDPort env\<rparr>, st1))"

subsection \<open>Bootstrap\<close>

text \<open>Lines 44 to 57: the preseed that \<open>Bootstrap\<close> builds before it does anything else.\<close>

definition Bootstrap_initData :: "'w env \<Rightarrow> LXDService \<Rightarrow> InitPreseed" where
  "Bootstrap_initData env s =
     (let addr = CanonicalNetworkAddress env (address s) (port s);
          server = \<lparr>Config = [''core.https_address'' \<mapsto> addr, ''cluster.https_address'' \<mapsto> addr]\<rparr>;
          rootDisk = [''root'' \<mapsto> [''path'' \<mapsto> ''/'', ''pool'' \<mapsto> ''local'', ''type'' \<mapsto> ''disk'']];
          profile = \<lparr>ProfilePut = \<lparr>Devices = rootDisk\<rparr>, profile_Name = ''default''\<rparr>;
          storage = \<lparr>pool_Name = ''local'', Driver = ''dir''\<rparr>
      in \<lparr>Node = \<lparr>ServerPut = server, StoragePools = [storage], Profiles = [profile]\<rparr>\<rparr>)"

text \<open>Lines 75 to 94: what follows a successful \<open>lxd init --preseed\<close>.\<close>

definition Bootstrap_cluster :: "'w env \<Rightarrow> LXDService \<Rightarrow> 'w state \<Rightarrow> error option \<times> 'w state" where
  "Bootstrap_cluster env s st1 =
     (case perform (GetCluster env (client s)) (GetCluster_ev (client s)) st1 of
        (Inl err, st2) \<Rightarrow>
          (Some (WrapError ''Failed to retrieve current cluster config: '' err), st2)
      | (Inr (currentCluster, etag), st2) \<Rightarrow>
          if Enabled currentCluster
          then (Some (ErrorString ''This LXD server is already clustered''), st2)
          else
            (let put = \<lparr>ServerName = name s, Enabled = True,
                        ClusterAddress = '''', ClusterCertificate = ''''\<rparr>
             in case perform (UpdateCluster env (client s) put etag)
                       (UpdateCluster_ev (client s) put etag) st2 of
                  (Inl err, st3) \<Rightarrow>
                    (Some (WrapError ''Failed to enable clustering on local LXD: '' err), st3)
                | (Inr op, st3) \<Rightarrow>
                    (case perform (Operation_Wait env op) (Wait_ev op) st3 of
                       (Some err, st4) \<Rightarrow>
                         (Some (WrapError ''Failed to configure cluster :'' err), st4)
                     | (None, st4) \<Rightarrow> (None, st4))))"

definition Bootstrap :: "'w env \<Rightarrow> LXDService \<Rightarrow> 'w state \<Rightarrow> error option \<times> 'w state" where
  "Bootstrap env s st =
     (case yaml_Marshal env (Bootstrap_initData env s) of
        Inl err \<Rightarrow> (Some (WrapError ''Failed to parse preseed configuration as yaml: '' err), st)
      | Inr data \<Rightarrow>
          (case Buffer_Write env data of
             Some err \<Rightarrow> (Some (WrapError ''Failed to write preseed configuration: '' err), st)
           | None \<Rightarrow>
               (case perform (RunCommandWithFds env data ''lxd'' [''init'', ''--preseed''])
                       (RunCommandWithFds_ev data ''lxd'' [''init'', ''--preseed'']) st of
                  (Some err, st1) \<Rightarrow> (Some (WrapError ''Failed to initialize LXD: '' err), st1)
                | (None, st1) \<Rightarrow> Bootstrap_cluster env s st1)))"

subsection \<open>Join\<close>

definition Join :: "'w env \<Rightarrow> LXDService \<Rightarrow> string \<Rightarrow> 'w state \<Rightarrow> error option \<times> 'w state" where
  "Join env s token st =
     (case perform (configFromToken env s token) (configFromToken_ev s token) st of
        (Inl err, st1) \<Rightarrow> (Some err, st1)
      | (Inr config, st1) \<Rightarrow>
          (case perform (LoadServerCert env (dir s)) (LoadServerCert_ev (dir s)) st1 of
             (Inl err, st2) \<Rightarrow> (Some err, st2)
           | (Inr serverCert, st2) \<Rightarrow>
               (case perform
                       (SetupTrust env serverCert (ServerName config) (ClusterAddress config)
                          (ClusterCertificate config) token)
                       (SetupTrust_ev serverCert (ServerName config) (ClusterAddress config)
                          (ClusterCertificate config) token) st2 of
                  (Some err, st3) \<Rightarrow>
                    (Some (WrapError ''Failed to setup trust relationship with cluster: '' err), st3)
                | (None, st3) \<Rightarrow>
                    (case perform (UpdateCluster env (client s) config '''')
                            (UpdateCluster_ev (client s) config '''') st3 of
                       (Inl err, st4) \<Rightarrow> (Some (WrapError ''Failed to join cluster: '' err), st4)
                     | (Inr op, st4) \<Rightarrow>
                         (case perform (Operation_Wait env op) (Wait_ev op) st4 of
                            (Some err, st5) \<Rightarrow>
                              (Some (WrapError ''Failed to join cluster: '' err), st5)
                          | (None, st5) \<Rightarrow> (None, st5))))))"

subsection \<open>IssueToken\<close>

definition IssueToken :: "'w env \<Rightarrow> LXDService \<Rightarrow> string \<Rightarrow> 'w state \<Rightarrow> (error + string) \<times> 'w state" where
  "IssueToken env s peer st =
     (let post = \<lparr>member_ServerName = peer\<rparr>
      in case perform (CreateClusterMember env (client s) post)
                (CreateClusterMember_ev (client s) post) st of
           (Inl err, st1) \<Rightarrow> (Inl err, st1)
         | (Inr op, st1) \<Rightarrow>
             (case perform (Operation_Get env op) (Get_ev op) st1 of
                (opAPI, st2) \<Rightarrow>
                  (case ToClusterJoinToken env opAPI of
                     Inl err \<Rightarrow>
                       (Inl (WrapError ''Failed converting token operation to join token: '' err), st2)
                   | Inr joinToken \<Rightarrow> (Inr (JoinToken_String env joinToken), st2))))"

subsection \<open>Accessors\<close>

definition Name :: "LXDService \<Rightarrow> string" where
  "Name s = name s"

definition Address :: "LXDService \<Rightarrow> string" where
  "Address s = address s"

definition Port :: "LXDService \<Rightarrow> int" where
  "Port s = port s"

subsection \<open>Reading a run\<close>

text \<open>
  The calls that a run added to the log: \<open>st\<close> is the state the run started in, \<open>out\<close>
  what it returned.  The value a run returned is the first component of \<open>out\<close>.
\<close>

definition calls_of :: "'w state \<Rightarrow> 'r \<times> 'w state \<Rightarrow> event list" where
  "calls_of st out = drop (length (trace st)) (trace (snd out))"

abbreviation init_ev :: "bytes \<Rightarrow> error option \<Rightarrow> event" where
  "init_ev data r \<equiv> RunCommandWithFds_ev data ''lxd'' [''init'', ''--preseed''] r"

abbreviation enable_put :: "string \<Rightarrow> ClusterPut" where
  "enable_put nm \<equiv>
     \<lparr>ServerName = nm, Enabled = True, ClusterAddress = '''', ClusterCertificate = ''''\<rparr>"

abbreviation trust_ev :: "CertInfo \<Rightarrow> ClusterPut \<Rightarrow> string \<Rightarrow> error option \<Rightarrow> event" where
  "trust_ev serverCert config token r \<equiv>
     SetupTrust_ev serverCert (ServerName config) (ClusterAddress config)
       (ClusterCertificate config) token r"

abbreviation already_clustered :: error where
  "already_clustered \<equiv> ErrorString ''This LXD server is already clustered''"

fun is_UpdateCluster :: "event \<Rightarrow> bool" where
  "is_UpdateCluster (UpdateCluster_ev c put v r) = True"
| "is_UpdateCluster _ = False"

fun is_GetCluster :: "event \<Rightarrow> bool" where
  "is_GetCluster (GetCluster_ev c r) = True"
| "is_GetCluster _ = False"

fun is_RunCommand :: "event \<Rightarrow> bool" where
  "is_RunCommand (RunCommandWithFds_ev stdin cmd args r) = True"
| "is_RunCommand _ = False"

fun is_Wait :: "event \<Rightarrow> bool" where
  "is_Wait (Wait_ev op r) = True"
| "is_Wait _ = False"

fun trust_step :: "event \<Rightarrow> bool" where
  "trust_step (configFromToken_ev s token r) = True"
| "trust_step (LoadServerCert_ev d r) = True"
| "trust_step (SetupTrust_ev serverCert nm addr cert token r) = True"
| "trust_step _ = False"

fun observed_clustered :: "event \<Rightarrow> bool" where
  "observed_clustered (GetCluster_ev c (Inr (cl, etag))) = Enabled cl"
| "observed_clustered _ = False"

text \<open>The error a logged call returned, if it returned one.\<close>

fun of_sum :: "error + 'a \<Rightarrow> error option" where
  "of_sum (Inl e) = Some e"
| "of_sum (Inr x) = None"

fun failure :: "event \<Rightarrow> error option" where
  "failure (ConnectLXDUnix_ev p r) = of_sum r"
| "failure (RunCommandWithFds_ev stdin cmd args r) = r"
| "failure (GetCluster_ev c r) = of_sum r"
| "failure (UpdateCluster_ev c put v r) = of_sum r"
| "failure (CreateClusterMember_ev c post r) = of_sum r"
| "failure (Wait_ev op r) = r"
| "failure (Get_ev op a) = None"
| "failure (configFromToken_ev s token r) = of_sum r"
| "failure (LoadServerCert_ev d r) = of_sum r"
| "failure (SetupTrust_ev serverCert nm addr cert token r) = r"

text \<open>
  The message that each operation puts in front of the error of a failed call.  \<open>Join\<close>
  puts none in front of a failure to decode the token or to load the certificate.
\<close>

fun Bootstrap_stage :: "event \<Rightarrow> string" where
  "Bootstrap_stage (RunCommandWithFds_ev stdin cmd args r) = ''Failed to initialize LXD: ''"
| "Bootstrap_stage (GetCluster_ev c r) = ''Failed to retrieve current cluster config: ''"
| "Bootstrap_stage (UpdateCluster_ev c put v r) = ''Failed to enable clustering on local LXD: ''"
| "Bootstrap_stage (Wait_ev op r) = ''Failed to configure cluster :''"
| "Bootstrap_stage _ = []"

fun Join_stage :: "event \<Rightarrow> string option" where
  "Join_stage (SetupTrust_ev serverCert nm addr cert token r) =
     Some ''Failed to setup trust relationship with cluster: ''"
| "Join_stage (UpdateCluster_ev c put v r) = Some ''Failed to join cluster: ''"
| "Join_stage (Wait_ev op r) = Some ''Failed to join cluster: ''"
| "Join_stage _ = None"

subsection \<open>Replaying a log against the collaborators\<close>

text \<open>
  A log entry says which collaborator was called, with which arguments, and what it
  returned.  \<open>step\<close> applies that collaborator with those arguments to a world, and gives
  the world it leaves if it returns what the entry says.  \<open>replay\<close> does this for a whole
  log, each call on the world the previous one left.  A run is \<open>faithful\<close> when it only
  adds to the log, and the calls it added, replayed from the world it started in, end in
  the world it returned: then the log holds exactly the calls that were made, in the order
  in which they were made, with the arguments and results they had.
\<close>

definition confirm :: "'r \<times> 'w \<Rightarrow> 'r \<Rightarrow> 'w option" where
  "confirm out r = (if fst out = r then Some (snd out) else None)"

fun step :: "'w env \<Rightarrow> event \<Rightarrow> 'w \<Rightarrow> 'w option" where
  "step env (ConnectLXDUnix_ev path r) w = confirm (ConnectLXDUnix env path w) r"
| "step env (RunCommandWithFds_ev stdin cmd args r) w =
     confirm (RunCommandWithFds env stdin cmd args w) r"
| "step env (GetCluster_ev c r) w = confirm (GetCluster env c w) r"
| "step env (UpdateCluster_ev c put v r) w = confirm (UpdateCluster env c put v w) r"
| "step env (CreateClusterMember_ev c post r) w = confirm (CreateClusterMember env c post w) r"
| "step env (Wait_ev op r) w = confirm (Operation_Wait env op w) r"
| "step env (Get_ev op a) w = confirm (Operation_Get env op w) a"
| "step env (configFromToken_ev s token r) w = confirm (configFromToken env s token w) r"
| "step env (LoadServerCert_ev d r) w = confirm (LoadServerCert env d w) r"
| "step env (SetupTrust_ev serverCert nm addr cert token r) w =
     confirm (SetupTrust env serverCert nm addr cert token w) r"

fun replay :: "'w env \<Rightarrow> event list \<Rightarrow> 'w \<Rightarrow> 'w option" where
  "replay env [] w = Some w"
| "replay env (ev # evs) w =
     (case step env ev w of None \<Rightarrow> None | Some w' \<Rightarrow> replay env evs w')"

definition faithful :: "'w env \<Rightarrow> 'w state \<Rightarrow> 'r \<times> 'w state \<Rightarrow> bool" where
  "faithful env st out \<longleftrightarrow>
     trace (snd out) = trace st @ calls_of st out
     \<and> replay env (calls_of st out) (world st) = Some (world (snd out))"

abbreviation state_after :: "'w state \<Rightarrow> 'w \<Rightarrow> event list \<Rightarrow> 'w state" where
  "state_after st w evs \<equiv> \<lparr>world = w, trace = trace st @ evs\<rparr>"

subsection \<open>Example runs\<close>

text \<open>
  Concrete collaborators on which the theorems below are exercised.  The world is a
  counter: the number of membership updates the local LXD has accepted.  The LXD reports
  clustering as enabled once it has accepted one.
\<close>

definition env_ok :: "nat env" where
  "env_ok =
     \<lparr>LXDPort = 8443,
      filepath_Join = (\<lambda>ps. case ps of [a, b] \<Rightarrow> a @ ''/'' @ b | _ \<Rightarrow> concat ps),
      ConnectLXDUnix = (\<lambda>path w. (Inr (InstanceServer 0), w)),
      CanonicalNetworkAddress = (\<lambda>a p. if p = 8443 then a @ '':8443'' else a),
      yaml_Marshal = (\<lambda>p. Inr ''preseed''),
      Buffer_Write = (\<lambda>data. None),
      RunCommandWithFds = (\<lambda>stdin cmd args w. (None, w)),
      GetCluster = (\<lambda>c w. (Inr (\<lparr>ServerName = '''', Enabled = (0 < w)\<rparr>, ''etag-1''), w)),
      UpdateCluster = (\<lambda>c put v w. (Inr (Operation 1), Suc w)),
      CreateClusterMember = (\<lambda>c post w. (Inr (Operation 2), w)),
      Operation_Wait = (\<lambda>op w. (None, w)),
      Operation_Get = (\<lambda>op w. (api_Operation ''token operation'', w)),
      ToClusterJoinToken = (\<lambda>a. Inr (ClusterMemberJoinToken ''join token'')),
      JoinToken_String = (\<lambda>t. case t of ClusterMemberJoinToken x \<Rightarrow> x),
      configFromToken = (\<lambda>s token w.
        (Inr \<lparr>ServerName = name s, Enabled = True, ClusterAddress = ''10.0.0.1:8443'',
              ClusterCertificate = ''F''\<rparr>, w)),
      LoadServerCert = (\<lambda>d w. (Inr (CertInfo ''server.crt''), w)),
      SetupTrust = (\<lambda>serverCert nm addr cert token w. (None, w))\<rparr>"

definition env_init_fails :: "nat env" where
  "env_init_fails =
     env_ok\<lparr>RunCommandWithFds := (\<lambda>stdin cmd args w. (Some (ErrorString ''exit status 1''), w))\<rparr>"

definition env_bad_token :: "nat env" where
  "env_bad_token =
     env_ok\<lparr>configFromToken := (\<lambda>s token w. (Inl (ErrorString ''Invalid join token''), w))\<rparr>"

definition env_no_cert :: "nat env" where
  "env_no_cert =
     env_ok\<lparr>LoadServerCert := (\<lambda>d w. (Inl (ErrorString ''no such file''), w))\<rparr>"

definition env_untrusted :: "nat env" where
  "env_untrusted =
     env_ok\<lparr>SetupTrust := (\<lambda>serverCert nm addr cert token w.
       (Some (ErrorString ''not authorized''), w))\<rparr>"

definition env_stale :: "nat env" where
  "env_stale =
     env_ok\<lparr>UpdateCluster := (\<lambda>c put v w. (Inl (ErrorString ''precondition failed''), w))\<rparr>"

definition env_conflict :: "nat env" where
  "env_conflict =
     env_ok\<lparr>CreateClusterMember := (\<lambda>c post w. (Inl (ErrorString ''Conflict''), w))\<rparr>"

definition env_bad_operation :: "nat env" where
  "env_bad_operation =
     env_ok\<lparr>ToClusterJoinToken := (\<lambda>a. Inl (ErrorString ''not a token operation''))\<rparr>"

definition node1 :: LXDService where
  "node1 =
     \<lparr>client = InstanceServer 0, dir = ''/var/lib/lxd'', name = ''node1'',
      address = ''10.0.0.5'', port = 8443\<rparr>"

definition fresh :: "nat state" where
  "fresh = \<lparr>world = 0, trace = []\<rparr>"

definition clustered :: "nat state" where
  "clustered = \<lparr>world = Suc 0, trace = []\<rparr>"

abbreviation config1 :: ClusterPut where
  "config1 \<equiv>
     \<lparr>ServerName = ''node1'', Enabled = True, ClusterAddress = ''10.0.0.1:8443'',
      ClusterCertificate = ''F''\<rparr>"

abbreviation trusted :: "event list" where
  "trusted \<equiv>
     [configFromToken_ev node1 ''tok'' (Inr config1),
      LoadServerCert_ev ''/var/lib/lxd'' (Inr (CertInfo ''server.crt'')),
      trust_ev (CertInfo ''server.crt'') config1 ''tok'' None]"

abbreviation refused_trust :: "event list" where
  "refused_trust \<equiv>
     [configFromToken_ev node1 ''tok'' (Inr config1),
      LoadServerCert_ev ''/var/lib/lxd'' (Inr (CertInfo ''server.crt'')),
      trust_ev (CertInfo ''server.crt'') config1 ''tok'' (Some (ErrorString ''not authorized''))]"

abbreviation read_open :: event where
  "read_open \<equiv>
     GetCluster_ev (InstanceServer 0) (Inr (\<lparr>ServerName = '''', Enabled = False\<rparr>, ''etag-1''))"

abbreviation read_clustered :: event where
  "read_clustered \<equiv>
     GetCluster_ev (InstanceServer 0) (Inr (\<lparr>ServerName = '''', Enabled = True\<rparr>, ''etag-1''))"

section \<open>Properties\<close>

subsection \<open>What a run of each operation looks like\<close>

text \<open>
  Each operation is a straight line of calls that stops at the first failure.  The lemmas
  below list, for each operation, every possible log together with the value returned.
\<close>

lemma perform_eq:
  "perform f ev st =
     (fst (f (world st)),
      \<lparr>world = snd (f (world st)), trace = trace st @ [ev (fst (f (world st)))]\<rparr>)"
  by (simp add: perform_def split: prod.splits)

lemma NewLXDService_shape:
  "(\<exists>e. calls_of st (NewLXDService env nm addr d st) =
          [ConnectLXDUnix_ev (filepath_Join env [d, ''unix.socket'']) (Inl e)]
      \<and> fst (NewLXDService env nm addr d st) =
          Inl (WrapError ''Failed to connect to local LXD: '' e))
   \<or> (\<exists>c. calls_of st (NewLXDService env nm addr d st) =
          [ConnectLXDUnix_ev (filepath_Join env [d, ''unix.socket'']) (Inr c)]
      \<and> fst (NewLXDService env nm addr d st) =
          Inr \<lparr>client = c, dir = d, name = nm, address = addr, port = LXDPort env\<rparr>)"
  by (simp add: NewLXDService_def perform_eq calls_of_def Let_def split: sum.splits)

lemma Bootstrap_cluster_shape:
  "(\<exists>e. calls_of st (Bootstrap_cluster env s st) = [GetCluster_ev (client s) (Inl e)]
      \<and> fst (Bootstrap_cluster env s st) =
          Some (WrapError ''Failed to retrieve current cluster config: '' e))
   \<or> (\<exists>cl etag. calls_of st (Bootstrap_cluster env s st) =
          [GetCluster_ev (client s) (Inr (cl, etag))]
      \<and> Enabled cl \<and> fst (Bootstrap_cluster env s st) = Some already_clustered)
   \<or> (\<exists>cl etag e. calls_of st (Bootstrap_cluster env s st) =
          [GetCluster_ev (client s) (Inr (cl, etag)),
           UpdateCluster_ev (client s) (enable_put (name s)) etag (Inl e)]
      \<and> \<not> Enabled cl \<and> fst (Bootstrap_cluster env s st) =
          Some (WrapError ''Failed to enable clustering on local LXD: '' e))
   \<or> (\<exists>cl etag op e. calls_of st (Bootstrap_cluster env s st) =
          [GetCluster_ev (client s) (Inr (cl, etag)),
           UpdateCluster_ev (client s) (enable_put (name s)) etag (Inr op), Wait_ev op (Some e)]
      \<and> \<not> Enabled cl \<and> fst (Bootstrap_cluster env s st) =
          Some (WrapError ''Failed to configure cluster :'' e))
   \<or> (\<exists>cl etag op. calls_of st (Bootstrap_cluster env s st) =
          [GetCluster_ev (client s) (Inr (cl, etag)),
           UpdateCluster_ev (client s) (enable_put (name s)) etag (Inr op), Wait_ev op None]
      \<and> \<not> Enabled cl \<and> fst (Bootstrap_cluster env s st) = None)"
  by (simp add: Bootstrap_cluster_def perform_eq calls_of_def Let_def
      split: sum.splits option.splits prod.splits)


lemma Bootstrap_shape:
  "(\<exists>e. yaml_Marshal env (Bootstrap_initData env s) = Inl e
      \<and> calls_of st (Bootstrap env s st) = []
      \<and> fst (Bootstrap env s st) =
          Some (WrapError ''Failed to parse preseed configuration as yaml: '' e))
   \<or> (\<exists>data e. yaml_Marshal env (Bootstrap_initData env s) = Inr data
      \<and> Buffer_Write env data = Some e
      \<and> calls_of st (Bootstrap env s st) = []
      \<and> fst (Bootstrap env s st) =
          Some (WrapError ''Failed to write preseed configuration: '' e))
   \<or> (\<exists>data. yaml_Marshal env (Bootstrap_initData env s) = Inr data
      \<and> Buffer_Write env data = None
      \<and> ((\<exists>e. calls_of st (Bootstrap env s st) = [init_ev data (Some e)]
             \<and> fst (Bootstrap env s st) = Some (WrapError ''Failed to initialize LXD: '' e))
         \<or> (\<exists>e. calls_of st (Bootstrap env s st) =
                [init_ev data None, GetCluster_ev (client s) (Inl e)]
             \<and> fst (Bootstrap env s st) =
                Some (WrapError ''Failed to retrieve current cluster config: '' e))
         \<or> (\<exists>cl etag. calls_of st (Bootstrap env s st) =
                [init_ev data None, GetCluster_ev (client s) (Inr (cl, etag))]
             \<and> Enabled cl \<and> fst (Bootstrap env s st) = Some already_clustered)
         \<or> (\<exists>cl etag e. calls_of st (Bootstrap env s st) =
                [init_ev data None, GetCluster_ev (client s) (Inr (cl, etag)),
                 UpdateCluster_ev (client s) (enable_put (name s)) etag (Inl e)]
             \<and> \<not> Enabled cl \<and> fst (Bootstrap env s st) =
                Some (WrapError ''Failed to enable clustering on local LXD: '' e))
         \<or> (\<exists>cl etag op e. calls_of st (Bootstrap env s st) =
                [init_ev data None, GetCluster_ev (client s) (Inr (cl, etag)),
                 UpdateCluster_ev (client s) (enable_put (name s)) etag (Inr op),
                 Wait_ev op (Some e)]
             \<and> \<not> Enabled cl \<and> fst (Bootstrap env s st) =
                Some (WrapError ''Failed to configure cluster :'' e))
         \<or> (\<exists>cl etag op. calls_of st (Bootstrap env s st) =
                [init_ev data None, GetCluster_ev (client s) (Inr (cl, etag)),
                 UpdateCluster_ev (client s) (enable_put (name s)) etag (Inr op),
                 Wait_ev op None]
             \<and> \<not> Enabled cl \<and> fst (Bootstrap env s st) = None)))"
  by (simp add: Bootstrap_def Bootstrap_cluster_def perform_eq calls_of_def Let_def
      split: sum.splits option.splits prod.splits)

lemma Join_shape:
  "(\<exists>e. calls_of st (Join env s token st) = [configFromToken_ev s token (Inl e)]
      \<and> fst (Join env s token st) = Some e)
   \<or> (\<exists>config e. calls_of st (Join env s token st) =
          [configFromToken_ev s token (Inr config), LoadServerCert_ev (dir s) (Inl e)]
      \<and> fst (Join env s token st) = Some e)
   \<or> (\<exists>config serverCert e. calls_of st (Join env s token st) =
          [configFromToken_ev s token (Inr config), LoadServerCert_ev (dir s) (Inr serverCert),
           trust_ev serverCert config token (Some e)]
      \<and> fst (Join env s token st) =
          Some (WrapError ''Failed to setup trust relationship with cluster: '' e))
   \<or> (\<exists>config serverCert e. calls_of st (Join env s token st) =
          [configFromToken_ev s token (Inr config), LoadServerCert_ev (dir s) (Inr serverCert),
           trust_ev serverCert config token None,
           UpdateCluster_ev (client s) config '''' (Inl e)]
      \<and> fst (Join env s token st) = Some (WrapError ''Failed to join cluster: '' e))
   \<or> (\<exists>config serverCert op e. calls_of st (Join env s token st) =
          [configFromToken_ev s token (Inr config), LoadServerCert_ev (dir s) (Inr serverCert),
           trust_ev serverCert config token None,
           UpdateCluster_ev (client s) config '''' (Inr op), Wait_ev op (Some e)]
      \<and> fst (Join env s token st) = Some (WrapError ''Failed to join cluster: '' e))
   \<or> (\<exists>config serverCert op. calls_of st (Join env s token st) =
          [configFromToken_ev s token (Inr config), LoadServerCert_ev (dir s) (Inr serverCert),
           trust_ev serverCert config token None,
           UpdateCluster_ev (client s) config '''' (Inr op), Wait_ev op None]
      \<and> fst (Join env s token st) = None)"
  by (simp add: Join_def perform_eq calls_of_def split: sum.splits option.splits)

lemma IssueToken_shape:
  "(\<exists>e. calls_of st (IssueToken env s peer st) =
          [CreateClusterMember_ev (client s) \<lparr>member_ServerName = peer\<rparr> (Inl e)]
      \<and> fst (IssueToken env s peer st) = Inl e)
   \<or> (\<exists>op opAPI e. calls_of st (IssueToken env s peer st) =
          [CreateClusterMember_ev (client s) \<lparr>member_ServerName = peer\<rparr> (Inr op),
           Get_ev op opAPI]
      \<and> ToClusterJoinToken env opAPI = Inl e
      \<and> fst (IssueToken env s peer st) =
          Inl (WrapError ''Failed converting token operation to join token: '' e))
   \<or> (\<exists>op opAPI joinToken. calls_of st (IssueToken env s peer st) =
          [CreateClusterMember_ev (client s) \<lparr>member_ServerName = peer\<rparr> (Inr op),
           Get_ev op opAPI]
      \<and> ToClusterJoinToken env opAPI = Inr joinToken
      \<and> fst (IssueToken env s peer st) = Inr (JoinToken_String env joinToken))"
  by (simp add: IssueToken_def perform_eq calls_of_def Let_def split: sum.splits option.splits)

lemma confirm_Some: "confirm out r = Some w \<longleftrightarrow> fst out = r \<and> snd out = w"
  by (auto simp: confirm_def)

lemma replay_Cons_Some:
  "replay env (ev # evs) w = Some w' \<longleftrightarrow>
     (\<exists>w1. step env ev w = Some w1 \<and> replay env evs w1 = Some w')"
  by (simp split: option.splits)

lemmas replay_iff = replay_Cons_Some confirm_Some

lemma Join_outcome:
  "(\<exists>e w. replay env [configFromToken_ev s token (Inl e)] (world st) = Some w
      \<and> Join env s token st =
          (Some e, state_after st w [configFromToken_ev s token (Inl e)]))
   \<or> (\<exists>config e w. replay env
          [configFromToken_ev s token (Inr config), LoadServerCert_ev (dir s) (Inl e)]
          (world st) = Some w
      \<and> Join env s token st =
          (Some e, state_after st w
            [configFromToken_ev s token (Inr config), LoadServerCert_ev (dir s) (Inl e)]))
   \<or> (\<exists>config serverCert e w. replay env
          [configFromToken_ev s token (Inr config), LoadServerCert_ev (dir s) (Inr serverCert),
           trust_ev serverCert config token (Some e)] (world st) = Some w
      \<and> Join env s token st =
          (Some (WrapError ''Failed to setup trust relationship with cluster: '' e),
           state_after st w
            [configFromToken_ev s token (Inr config), LoadServerCert_ev (dir s) (Inr serverCert),
             trust_ev serverCert config token (Some e)]))
   \<or> (\<exists>config serverCert e w. replay env
          [configFromToken_ev s token (Inr config), LoadServerCert_ev (dir s) (Inr serverCert),
           trust_ev serverCert config token None,
           UpdateCluster_ev (client s) config '''' (Inl e)] (world st) = Some w
      \<and> Join env s token st =
          (Some (WrapError ''Failed to join cluster: '' e),
           state_after st w
            [configFromToken_ev s token (Inr config), LoadServerCert_ev (dir s) (Inr serverCert),
             trust_ev serverCert config token None,
             UpdateCluster_ev (client s) config '''' (Inl e)]))
   \<or> (\<exists>config serverCert op e w. replay env
          [configFromToken_ev s token (Inr config), LoadServerCert_ev (dir s) (Inr serverCert),
           trust_ev serverCert config token None,
           UpdateCluster_ev (client s) config '''' (Inr op), Wait_ev op (Some e)] (world st) = Some w
      \<and> Join env s token st =
          (Some (WrapError ''Failed to join cluster: '' e),
           state_after st w
            [configFromToken_ev s token (Inr config), LoadServerCert_ev (dir s) (Inr serverCert),
             trust_ev serverCert config token None,
             UpdateCluster_ev (client s) config '''' (Inr op), Wait_ev op (Some e)]))
   \<or> (\<exists>config serverCert op w. replay env
          [configFromToken_ev s token (Inr config), LoadServerCert_ev (dir s) (Inr serverCert),
           trust_ev serverCert config token None,
           UpdateCluster_ev (client s) config '''' (Inr op), Wait_ev op None] (world st) = Some w
      \<and> Join env s token st =
          (None, state_after st w
            [configFromToken_ev s token (Inr config), LoadServerCert_ev (dir s) (Inr serverCert),
             trust_ev serverCert config token None,
             UpdateCluster_ev (client s) config '''' (Inr op), Wait_ev op None]))"
  by (simp add: replay_iff del: replay.simps(2))
     (simp add: Join_def perform_eq split: sum.splits option.splits)

lemma Join_faithful: "faithful env st (Join env s token st)"
  using Join_outcome [of env s token st]
  by (elim disjE exE conjE) (simp_all add: faithful_def calls_of_def)

lemma Join_decode_fails:
  assumes "replay env [configFromToken_ev s token (Inl e)] (world st) = Some w"
  shows "Join env s token st =
     (Some e, state_after st w [configFromToken_ev s token (Inl e)])"
  using assms
  by (simp add: replay_iff del: replay.simps(2)) (auto simp: Join_def perform_eq)

lemma Join_cert_fails:
  assumes "replay env
     [configFromToken_ev s token (Inr config), LoadServerCert_ev (dir s) (Inl e)]
     (world st) = Some w"
  shows "Join env s token st =
     (Some e, state_after st w
       [configFromToken_ev s token (Inr config), LoadServerCert_ev (dir s) (Inl e)])"
  using assms
  by (simp add: replay_iff del: replay.simps(2)) (auto simp: Join_def perform_eq)

lemma Join_trust_fails:
  assumes "replay env
     [configFromToken_ev s token (Inr config), LoadServerCert_ev (dir s) (Inr serverCert),
      trust_ev serverCert config token (Some e)] (world st) = Some w"
  shows "Join env s token st =
     (Some (WrapError ''Failed to setup trust relationship with cluster: '' e),
      state_after st w
       [configFromToken_ev s token (Inr config), LoadServerCert_ev (dir s) (Inr serverCert),
        trust_ev serverCert config token (Some e)])"
  using assms
  by (simp add: replay_iff del: replay.simps(2)) (auto simp: Join_def perform_eq)

lemma Join_update_fails:
  assumes "replay env
     [configFromToken_ev s token (Inr config), LoadServerCert_ev (dir s) (Inr serverCert),
      trust_ev serverCert config token None,
      UpdateCluster_ev (client s) config '''' (Inl e)] (world st) = Some w"
  shows "Join env s token st =
     (Some (WrapError ''Failed to join cluster: '' e),
      state_after st w
       [configFromToken_ev s token (Inr config), LoadServerCert_ev (dir s) (Inr serverCert),
        trust_ev serverCert config token None,
        UpdateCluster_ev (client s) config '''' (Inl e)])"
  using assms
  by (simp add: replay_iff del: replay.simps(2)) (auto simp: Join_def perform_eq)

lemma Join_wait_fails:
  assumes "replay env
     [configFromToken_ev s token (Inr config), LoadServerCert_ev (dir s) (Inr serverCert),
      trust_ev serverCert config token None,
      UpdateCluster_ev (client s) config '''' (Inr op), Wait_ev op (Some e)] (world st) = Some w"
  shows "Join env s token st =
     (Some (WrapError ''Failed to join cluster: '' e),
      state_after st w
       [configFromToken_ev s token (Inr config), LoadServerCert_ev (dir s) (Inr serverCert),
        trust_ev serverCert config token None,
        UpdateCluster_ev (client s) config '''' (Inr op), Wait_ev op (Some e)])"
  using assms
  by (simp add: replay_iff del: replay.simps(2)) (auto simp: Join_def perform_eq)

lemma Join_succeeds:
  assumes "replay env
     [configFromToken_ev s token (Inr config), LoadServerCert_ev (dir s) (Inr serverCert),
      trust_ev serverCert config token None,
      UpdateCluster_ev (client s) config '''' (Inr op), Wait_ev op None] (world st) = Some w"
  shows "Join env s token st =
     (None,
      state_after st w
       [configFromToken_ev s token (Inr config), LoadServerCert_ev (dir s) (Inr serverCert),
        trust_ev serverCert config token None,
        UpdateCluster_ev (client s) config '''' (Inr op), Wait_ev op None])"
  using assms
  by (simp add: replay_iff del: replay.simps(2)) (auto simp: Join_def perform_eq)

lemma Join_after_trust:
  assumes "replay env
     [configFromToken_ev s token (Inr config), LoadServerCert_ev (dir s) (Inr serverCert),
      trust_ev serverCert config token None] (world st) = Some w3"
    and "UpdateCluster env (client s) config '''' w3 = (res, w4)"
  shows "\<exists>rest. calls_of st (Join env s token st) =
           [configFromToken_ev s token (Inr config), LoadServerCert_ev (dir s) (Inr serverCert),
            trust_ev serverCert config token None,
            UpdateCluster_ev (client s) config '''' res] @ rest
         \<and> replay env rest w4 = Some (world (snd (Join env s token st)))"
  using assms
  apply (simp add: replay_iff del: replay.simps(2))
  apply (auto simp: Join_def perform_eq calls_of_def confirm_def split: sum.splits option.splits)
  done

lemma Bootstrap_outcome:
  "(\<exists>e. yaml_Marshal env (Bootstrap_initData env s) = Inl e
      \<and> Bootstrap env s st =
          (Some (WrapError ''Failed to parse preseed configuration as yaml: '' e), st))
   \<or> (\<exists>data e. yaml_Marshal env (Bootstrap_initData env s) = Inr data
      \<and> Buffer_Write env data = Some e
      \<and> Bootstrap env s st =
          (Some (WrapError ''Failed to write preseed configuration: '' e), st))
   \<or> (\<exists>data. yaml_Marshal env (Bootstrap_initData env s) = Inr data
      \<and> Buffer_Write env data = None
      \<and> ((\<exists>e w. replay env [init_ev data (Some e)] (world st) = Some w
             \<and> Bootstrap env s st =
                 (Some (WrapError ''Failed to initialize LXD: '' e),
                  state_after st w [init_ev data (Some e)]))
         \<or> (\<exists>e w. replay env [init_ev data None, GetCluster_ev (client s) (Inl e)]
                     (world st) = Some w
             \<and> Bootstrap env s st =
                 (Some (WrapError ''Failed to retrieve current cluster config: '' e),
                  state_after st w [init_ev data None, GetCluster_ev (client s) (Inl e)]))
         \<or> (\<exists>cl etag w. replay env
                [init_ev data None, GetCluster_ev (client s) (Inr (cl, etag))] (world st) = Some w
             \<and> Enabled cl
             \<and> Bootstrap env s st =
                 (Some already_clustered,
                  state_after st w
                   [init_ev data None, GetCluster_ev (client s) (Inr (cl, etag))]))
         \<or> (\<exists>cl etag e w. replay env
                [init_ev data None, GetCluster_ev (client s) (Inr (cl, etag)),
                 UpdateCluster_ev (client s) (enable_put (name s)) etag (Inl e)] (world st) = Some w
             \<and> \<not> Enabled cl
             \<and> Bootstrap env s st =
                 (Some (WrapError ''Failed to enable clustering on local LXD: '' e),
                  state_after st w
                   [init_ev data None, GetCluster_ev (client s) (Inr (cl, etag)),
                    UpdateCluster_ev (client s) (enable_put (name s)) etag (Inl e)]))
         \<or> (\<exists>cl etag op e w. replay env
                [init_ev data None, GetCluster_ev (client s) (Inr (cl, etag)),
                 UpdateCluster_ev (client s) (enable_put (name s)) etag (Inr op),
                 Wait_ev op (Some e)] (world st) = Some w
             \<and> \<not> Enabled cl
             \<and> Bootstrap env s st =
                 (Some (WrapError ''Failed to configure cluster :'' e),
                  state_after st w
                   [init_ev data None, GetCluster_ev (client s) (Inr (cl, etag)),
                    UpdateCluster_ev (client s) (enable_put (name s)) etag (Inr op),
                    Wait_ev op (Some e)]))
         \<or> (\<exists>cl etag op w. replay env
                [init_ev data None, GetCluster_ev (client s) (Inr (cl, etag)),
                 UpdateCluster_ev (client s) (enable_put (name s)) etag (Inr op),
                 Wait_ev op None] (world st) = Some w
             \<and> \<not> Enabled cl
             \<and> Bootstrap env s st =
                 (None,
                  state_after st w
                   [init_ev data None, GetCluster_ev (client s) (Inr (cl, etag)),
                    UpdateCluster_ev (client s) (enable_put (name s)) etag (Inr op),
                    Wait_ev op None]))))"
  by (simp add: replay_iff del: replay.simps(2))
     (simp add: Bootstrap_def Bootstrap_cluster_def perform_eq Let_def
        split: sum.splits option.splits prod.splits)

lemma Bootstrap_faithful: "faithful env st (Bootstrap env s st)"
  using Bootstrap_outcome [of env s st]
  by (elim disjE exE conjE) (simp_all add: faithful_def calls_of_def)

lemma IssueToken_outcome:
  "(\<exists>e w. replay env
        [CreateClusterMember_ev (client s) \<lparr>member_ServerName = peer\<rparr> (Inl e)]
        (world st) = Some w
      \<and> IssueToken env s peer st =
          (Inl e, state_after st w
            [CreateClusterMember_ev (client s) \<lparr>member_ServerName = peer\<rparr> (Inl e)]))
   \<or> (\<exists>op opAPI w. replay env
        [CreateClusterMember_ev (client s) \<lparr>member_ServerName = peer\<rparr> (Inr op),
         Get_ev op opAPI] (world st) = Some w
      \<and> IssueToken env s peer st =
          ((case ToClusterJoinToken env opAPI of
              Inl e \<Rightarrow> Inl (WrapError ''Failed converting token operation to join token: '' e)
            | Inr joinToken \<Rightarrow> Inr (JoinToken_String env joinToken)),
           state_after st w
            [CreateClusterMember_ev (client s) \<lparr>member_ServerName = peer\<rparr> (Inr op),
             Get_ev op opAPI]))"
  by (simp add: replay_iff del: replay.simps(2))
     (simp add: IssueToken_def perform_eq Let_def split: sum.splits option.splits)

lemma IssueToken_faithful: "faithful env st (IssueToken env s peer st)"
  using IssueToken_outcome [of env s peer st]
  by (elim disjE exE conjE) (simp_all add: faithful_def calls_of_def)

lemma Bootstrap_yaml_fails:
  assumes "yaml_Marshal env (Bootstrap_initData env s) = Inl e"
  shows "Bootstrap env s st =
     (Some (WrapError ''Failed to parse preseed configuration as yaml: '' e), st)"
  using assms by (simp add: Bootstrap_def)

lemma Bootstrap_buffer_fails:
  assumes "yaml_Marshal env (Bootstrap_initData env s) = Inr data"
    and "Buffer_Write env data = Some e"
  shows "Bootstrap env s st =
     (Some (WrapError ''Failed to write preseed configuration: '' e), st)"
  using assms by (simp add: Bootstrap_def)

lemma Bootstrap_init_fails:
  assumes "yaml_Marshal env (Bootstrap_initData env s) = Inr data"
    and "Buffer_Write env data = None"
    and "replay env [init_ev data (Some e)] (world st) = Some w"
  shows "Bootstrap env s st =
     (Some (WrapError ''Failed to initialize LXD: '' e),
      state_after st w [init_ev data (Some e)])"
  using assms
  by (simp add: replay_iff del: replay.simps(2))
     (auto simp: Bootstrap_def Bootstrap_cluster_def perform_eq)

lemma Bootstrap_fetch_fails:
  assumes "yaml_Marshal env (Bootstrap_initData env s) = Inr data"
    and "Buffer_Write env data = None"
    and "replay env [init_ev data None, GetCluster_ev (client s) (Inl e)] (world st) = Some w"
  shows "Bootstrap env s st =
     (Some (WrapError ''Failed to retrieve current cluster config: '' e),
      state_after st w [init_ev data None, GetCluster_ev (client s) (Inl e)])"
  using assms
  by (simp add: replay_iff del: replay.simps(2))
     (auto simp: Bootstrap_def Bootstrap_cluster_def perform_eq)

lemma Bootstrap_refuses:
  assumes "yaml_Marshal env (Bootstrap_initData env s) = Inr data"
    and "Buffer_Write env data = None"
    and "replay env [init_ev data None, GetCluster_ev (client s) (Inr (cl, etag))]
           (world st) = Some w"
    and "Enabled cl"
  shows "Bootstrap env s st =
     (Some already_clustered,
      state_after st w [init_ev data None, GetCluster_ev (client s) (Inr (cl, etag))])"
  using assms
  by (simp add: replay_iff del: replay.simps(2))
     (auto simp: Bootstrap_def Bootstrap_cluster_def perform_eq)

lemma Bootstrap_update_fails:
  assumes "yaml_Marshal env (Bootstrap_initData env s) = Inr data"
    and "Buffer_Write env data = None"
    and "replay env
           [init_ev data None, GetCluster_ev (client s) (Inr (cl, etag)),
            UpdateCluster_ev (client s) (enable_put (name s)) etag (Inl e)] (world st) = Some w"
    and "\<not> Enabled cl"
  shows "Bootstrap env s st =
     (Some (WrapError ''Failed to enable clustering on local LXD: '' e),
      state_after st w
       [init_ev data None, GetCluster_ev (client s) (Inr (cl, etag)),
        UpdateCluster_ev (client s) (enable_put (name s)) etag (Inl e)])"
  using assms
  by (simp add: replay_iff del: replay.simps(2))
     (auto simp: Bootstrap_def Bootstrap_cluster_def perform_eq)

lemma Bootstrap_waits:
  assumes "yaml_Marshal env (Bootstrap_initData env s) = Inr data"
    and "Buffer_Write env data = None"
    and "replay env
           [init_ev data None, GetCluster_ev (client s) (Inr (cl, etag)),
            UpdateCluster_ev (client s) (enable_put (name s)) etag (Inr op),
            Wait_ev op r] (world st) = Some w"
    and "\<not> Enabled cl"
  shows "Bootstrap env s st =
     ((case r of None \<Rightarrow> None
       | Some e \<Rightarrow> Some (WrapError ''Failed to configure cluster :'' e)),
      state_after st w
       [init_ev data None, GetCluster_ev (client s) (Inr (cl, etag)),
        UpdateCluster_ev (client s) (enable_put (name s)) etag (Inr op), Wait_ev op r])"
  using assms
  by (simp add: replay_iff del: replay.simps(2))
     (auto simp: Bootstrap_def Bootstrap_cluster_def perform_eq split: option.splits)

lemma IssueToken_create_fails:
  assumes "replay env
     [CreateClusterMember_ev (client s) \<lparr>member_ServerName = peer\<rparr> (Inl e)]
     (world st) = Some w"
  shows "IssueToken env s peer st =
     (Inl e, state_after st w
       [CreateClusterMember_ev (client s) \<lparr>member_ServerName = peer\<rparr> (Inl e)])"
  using assms
  by (simp add: replay_iff del: replay.simps(2)) (auto simp: IssueToken_def perform_eq)

lemma IssueToken_reads:
  assumes "replay env
     [CreateClusterMember_ev (client s) \<lparr>member_ServerName = peer\<rparr> (Inr op),
      Get_ev op opAPI] (world st) = Some w"
  shows "IssueToken env s peer st =
     ((case ToClusterJoinToken env opAPI of
         Inl e \<Rightarrow> Inl (WrapError ''Failed converting token operation to join token: '' e)
       | Inr joinToken \<Rightarrow> Inr (JoinToken_String env joinToken)),
      state_after st w
       [CreateClusterMember_ev (client s) \<lparr>member_ServerName = peer\<rparr> (Inr op),
        Get_ev op opAPI])"
  using assms
  by (simp add: replay_iff del: replay.simps(2))
     (auto simp: IssueToken_def perform_eq split: sum.splits)

lemma Bootstrap_after_marshal:
  assumes "yaml_Marshal env (Bootstrap_initData env s) = Inr data"
    and "Buffer_Write env data = None"
    and "RunCommandWithFds env data ''lxd'' [''init'', ''--preseed''] (world st) = (r, w1)"
  shows "\<exists>rest. calls_of st (Bootstrap env s st) = init_ev data r # rest
           \<and> (\<forall>ev \<in> set rest. \<not> is_RunCommand ev)
           \<and> replay env rest w1 = Some (world (snd (Bootstrap env s st)))"
  using assms
  by (auto simp: Bootstrap_def Bootstrap_cluster_def perform_eq calls_of_def confirm_def Let_def
      split: sum.splits option.splits prod.splits)

lemma Bootstrap_after_init:
  assumes "yaml_Marshal env (Bootstrap_initData env s) = Inr data"
    and "Buffer_Write env data = None"
    and "RunCommandWithFds env data ''lxd'' [''init'', ''--preseed''] (world st) = (None, w1)"
    and "GetCluster env (client s) w1 = (r, w2)"
  shows "\<exists>rest. calls_of st (Bootstrap env s st) =
             [init_ev data None, GetCluster_ev (client s) r] @ rest
           \<and> replay env rest w2 = Some (world (snd (Bootstrap env s st)))"
  using assms
  by (auto simp: Bootstrap_def Bootstrap_cluster_def perform_eq calls_of_def confirm_def Let_def
      split: sum.splits option.splits prod.splits)

lemma Bootstrap_after_fetch:
  assumes "yaml_Marshal env (Bootstrap_initData env s) = Inr data"
    and "Buffer_Write env data = None"
    and "replay env [init_ev data None, GetCluster_ev (client s) (Inr (cl, etag))]
           (world st) = Some w2"
    and "\<not> Enabled cl"
    and "UpdateCluster env (client s) (enable_put (name s)) etag w2 = (res, w3)"
  shows "\<exists>rest. calls_of st (Bootstrap env s st) =
             [init_ev data None, GetCluster_ev (client s) (Inr (cl, etag)),
              UpdateCluster_ev (client s) (enable_put (name s)) etag res] @ rest
           \<and> replay env rest w3 = Some (world (snd (Bootstrap env s st)))"
  using assms
  apply (simp add: replay_iff del: replay.simps(2))
  apply (auto simp: Bootstrap_def Bootstrap_cluster_def perform_eq calls_of_def confirm_def Let_def
      split: sum.splits option.splits)
  done

lemma IssueToken_after_create:
  assumes "CreateClusterMember env (client s) \<lparr>member_ServerName = peer\<rparr> (world st) = (Inr op, w1)"
    and "Operation_Get env op w1 = (opAPI, w2)"
  shows "IssueToken env s peer st =
     ((case ToClusterJoinToken env opAPI of
         Inl e \<Rightarrow> Inl (WrapError ''Failed converting token operation to join token: '' e)
       | Inr joinToken \<Rightarrow> Inr (JoinToken_String env joinToken)),
      state_after st w2
       [CreateClusterMember_ev (client s) \<lparr>member_ServerName = peer\<rparr> (Inr op),
        Get_ev op opAPI])"
  using assms by (simp add: IssueToken_def perform_def split: sum.splits)

lemma Bootstrap_wait_fails:
  assumes "yaml_Marshal env (Bootstrap_initData env s) = Inr data"
    and "Buffer_Write env data = None"
    and "replay env
           [init_ev data None, GetCluster_ev (client s) (Inr (cl, etag)),
            UpdateCluster_ev (client s) (enable_put (name s)) etag (Inr op),
            Wait_ev op (Some e)] (world st) = Some w"
    and "\<not> Enabled cl"
  shows "Bootstrap env s st =
     (Some (WrapError ''Failed to configure cluster :'' e),
      state_after st w
       [init_ev data None, GetCluster_ev (client s) (Inr (cl, etag)),
        UpdateCluster_ev (client s) (enable_put (name s)) etag (Inr op), Wait_ev op (Some e)])"
  using Bootstrap_waits [OF assms] by simp

subsection \<open>Runs of the examples\<close>

lemmas example_defs =
  env_ok_def env_init_fails_def env_bad_token_def env_no_cert_def env_untrusted_def
  env_stale_def env_conflict_def env_bad_operation_def node1_def fresh_def clustered_def

lemmas run_defs =
  NewLXDService_def Bootstrap_def Bootstrap_cluster_def Join_def IssueToken_def perform_def
  calls_of_def confirm_def Bootstrap_initData_def Let_def

lemma NewLXDService_fields:
  assumes "fst (NewLXDService env nm addr d st0) = Inr s"
  shows "name s = nm" and "address s = addr" and "dir s = d" and "port s = LXDPort env"
  using NewLXDService_shape [of st0 env nm addr d] assms by auto

lemma NewLXDService_ok_run:
  "fst (NewLXDService env_ok ''node1'' ''10.0.0.5'' ''/var/lib/lxd'' fresh) = Inr node1"
  by (simp add: NewLXDService_def perform_def example_defs)

lemma node1_fields:
  "client node1 = InstanceServer 0" "dir node1 = ''/var/lib/lxd''" "name node1 = ''node1''"
  by (simp_all add: node1_def)

lemma example_worlds: "world fresh = 0" "world clustered = Suc 0"
  by (simp_all add: fresh_def clustered_def)

lemma example_preseed:
  "yaml_Marshal env_ok (Bootstrap_initData env_ok node1) = Inr ''preseed''"
  "Buffer_Write env_ok ''preseed'' = None"
  "yaml_Marshal env_init_fails (Bootstrap_initData env_init_fails node1) = Inr ''preseed''"
  "Buffer_Write env_init_fails ''preseed'' = None"
  "yaml_Marshal env_stale (Bootstrap_initData env_stale node1) = Inr ''preseed''"
  "Buffer_Write env_stale ''preseed'' = None"
  by (simp_all add: example_defs)

lemma Join_ok_run:
  "Join env_ok node1 ''tok'' fresh =
     (None,
      state_after fresh (Suc 0)
        (trusted @ [UpdateCluster_ev (InstanceServer 0) config1 '''' (Inr (Operation 1)),
                    Wait_ev (Operation 1) None]))"
  by (simp add: run_defs example_defs)

lemma Join_untrusted_run:
  "Join env_untrusted node1 ''tok'' fresh =
     (Some (WrapError ''Failed to setup trust relationship with cluster: ''
              (ErrorString ''not authorized'')),
      state_after fresh 0 refused_trust)"
  by (simp add: run_defs example_defs)

lemma Join_no_cert_run:
  "Join env_no_cert node1 ''tok'' fresh =
     (Some (ErrorString ''no such file''),
      state_after fresh 0
        [configFromToken_ev node1 ''tok'' (Inr config1),
         LoadServerCert_ev ''/var/lib/lxd'' (Inl (ErrorString ''no such file''))])"
  by (simp add: run_defs example_defs)

lemma Join_stale_run:
  "Join env_stale node1 ''tok'' fresh =
     (Some (WrapError ''Failed to join cluster: '' (ErrorString ''precondition failed'')),
      state_after fresh 0
        (trusted @ [UpdateCluster_ev (InstanceServer 0) config1 ''''
                      (Inl (ErrorString ''precondition failed''))]))"
  by (simp add: run_defs example_defs)

lemma Bootstrap_ok_run:
  "Bootstrap env_ok node1 fresh =
     (None,
      state_after fresh (Suc 0)
        [init_ev ''preseed'' None, read_open,
         UpdateCluster_ev (InstanceServer 0) (enable_put ''node1'') ''etag-1'' (Inr (Operation 1)),
         Wait_ev (Operation 1) None])"
  by (simp add: run_defs example_defs)

lemma Bootstrap_clustered_run:
  "Bootstrap env_ok node1 clustered =
     (Some already_clustered,
      state_after clustered (Suc 0) [init_ev ''preseed'' None, read_clustered])"
  by (simp add: run_defs example_defs)

lemma Bootstrap_init_fails_run:
  "Bootstrap env_init_fails node1 fresh =
     (Some (WrapError ''Failed to initialize LXD: '' (ErrorString ''exit status 1'')),
      state_after fresh 0 [init_ev ''preseed'' (Some (ErrorString ''exit status 1''))])"
  by (simp add: run_defs example_defs)

lemma IssueToken_ok_run:
  "IssueToken env_ok node1 ''node2'' fresh =
     (Inr ''join token'',
      state_after fresh 0
        [CreateClusterMember_ev (InstanceServer 0) \<lparr>member_ServerName = ''node2''\<rparr>
           (Inr (Operation 2)),
         Get_ev (Operation 2) (api_Operation ''token operation'')])"
  by (simp add: run_defs example_defs)

lemma IssueToken_conflict_run:
  "IssueToken env_conflict node1 ''node2'' fresh =
     (Inl (ErrorString ''Conflict''),
      state_after fresh 0
        [CreateClusterMember_ev (InstanceServer 0) \<lparr>member_ServerName = ''node2''\<rparr>
           (Inl (ErrorString ''Conflict''))])"
  by (simp add: run_defs example_defs)

lemma IssueToken_bad_operation_run:
  "IssueToken env_bad_operation node1 ''node2'' fresh =
     (Inl (WrapError ''Failed converting token operation to join token: ''
             (ErrorString ''not a token operation'')),
      state_after fresh 0
        [CreateClusterMember_ev (InstanceServer 0) \<lparr>member_ServerName = ''node2''\<rparr>
           (Inr (Operation 2)),
         Get_ev (Operation 2) (api_Operation ''token operation'')])"
  by (simp add: run_defs example_defs)

lemma example_calls:
  "calls_of fresh (Join env_ok node1 ''tok'' fresh) =
     trusted @ [UpdateCluster_ev (InstanceServer 0) config1 '''' (Inr (Operation 1)),
                Wait_ev (Operation 1) None]"
  "calls_of fresh (Join env_untrusted node1 ''tok'' fresh) = refused_trust"
  "calls_of fresh (Join env_no_cert node1 ''tok'' fresh) =
     [configFromToken_ev node1 ''tok'' (Inr config1),
      LoadServerCert_ev ''/var/lib/lxd'' (Inl (ErrorString ''no such file''))]"
  "calls_of fresh (Join env_stale node1 ''tok'' fresh) =
     trusted @ [UpdateCluster_ev (InstanceServer 0) config1 ''''
                  (Inl (ErrorString ''precondition failed''))]"
  "calls_of fresh (Bootstrap env_ok node1 fresh) =
     [init_ev ''preseed'' None, read_open,
      UpdateCluster_ev (InstanceServer 0) (enable_put ''node1'') ''etag-1'' (Inr (Operation 1)),
      Wait_ev (Operation 1) None]"
  "calls_of clustered (Bootstrap env_ok node1 clustered) =
     [init_ev ''preseed'' None, read_clustered]"
  "calls_of fresh (Bootstrap env_init_fails node1 fresh) =
     [init_ev ''preseed'' (Some (ErrorString ''exit status 1''))]"
  "calls_of fresh (IssueToken env_ok node1 ''node2'' fresh) =
     [CreateClusterMember_ev (InstanceServer 0) \<lparr>member_ServerName = ''node2''\<rparr>
        (Inr (Operation 2)),
      Get_ev (Operation 2) (api_Operation ''token operation'')]"
  "calls_of fresh (IssueToken env_conflict node1 ''node2'' fresh) =
     [CreateClusterMember_ev (InstanceServer 0) \<lparr>member_ServerName = ''node2''\<rparr>
        (Inl (ErrorString ''Conflict''))]"
  "calls_of fresh (IssueToken env_bad_operation node1 ''node2'' fresh) =
     [CreateClusterMember_ev (InstanceServer 0) \<lparr>member_ServerName = ''node2''\<rparr>
        (Inr (Operation 2)),
      Get_ev (Operation 2) (api_Operation ''token operation'')]"
  by (simp_all add: Join_ok_run Join_untrusted_run Join_no_cert_run Join_stale_run
      Bootstrap_ok_run Bootstrap_clustered_run Bootstrap_init_fails_run IssueToken_ok_run
      IssueToken_conflict_run IssueToken_bad_operation_run calls_of_def)

lemma example_replays:
  "replay env_ok trusted 0 = Some 0"
  "replay env_untrusted refused_trust 0 = Some 0"
  "replay env_no_cert
     [configFromToken_ev node1 ''tok'' (Inr config1),
      LoadServerCert_ev ''/var/lib/lxd'' (Inl (ErrorString ''no such file''))] 0 = Some 0"
  "replay env_stale
     (trusted @ [UpdateCluster_ev (InstanceServer 0) config1 ''''
                   (Inl (ErrorString ''precondition failed''))]) 0 = Some 0"
  "replay env_ok [init_ev ''preseed'' None, read_open] 0 = Some 0"
  "replay env_ok [init_ev ''preseed'' None, read_clustered] (Suc 0) = Some (Suc 0)"
  "replay env_ok
     [init_ev ''preseed'' None, read_open,
      UpdateCluster_ev (InstanceServer 0) (enable_put ''node1'') ''etag-1'' (Inr (Operation 1)),
      Wait_ev (Operation 1) None] 0 = Some (Suc 0)"
  "replay env_init_fails [init_ev ''preseed'' (Some (ErrorString ''exit status 1''))] 0 = Some 0"
  "replay env_stale
     [init_ev ''preseed'' None, read_open,
      UpdateCluster_ev (InstanceServer 0) (enable_put ''node1'') ''etag-1''
        (Inl (ErrorString ''precondition failed''))] 0 = Some 0"
  "replay env_conflict
     [CreateClusterMember_ev (InstanceServer 0) \<lparr>member_ServerName = ''node2''\<rparr>
        (Inl (ErrorString ''Conflict''))] 0 = Some 0"
  "replay env_bad_operation
     [CreateClusterMember_ev (InstanceServer 0) \<lparr>member_ServerName = ''node2''\<rparr>
        (Inr (Operation 2)),
      Get_ev (Operation 2) (api_Operation ''token operation'')] 0 = Some 0"
  by (simp_all add: confirm_def example_defs)

lemma example_calls_made:
  "UpdateCluster env_ok (InstanceServer 0) config1 '''' 0 = (Inr (Operation 1), Suc 0)"
  "UpdateCluster env_ok (InstanceServer 0) (enable_put ''node1'') ''etag-1'' 0 =
     (Inr (Operation 1), Suc 0)"
  "Operation_Wait env_ok (Operation 1) (Suc 0) = (None, Suc 0)"
  "RunCommandWithFds env_ok ''preseed'' ''lxd'' [''init'', ''--preseed''] 0 = (None, 0)"
  "RunCommandWithFds env_ok ''preseed'' ''lxd'' [''init'', ''--preseed''] (Suc 0) = (None, Suc 0)"
  "GetCluster env_ok (InstanceServer 0) (Suc 0) =
     (Inr (\<lparr>ServerName = '''', Enabled = True\<rparr>, ''etag-1''), Suc 0)"
  "RunCommandWithFds env_init_fails ''preseed'' ''lxd'' [''init'', ''--preseed''] 0 =
     (Some (ErrorString ''exit status 1''), 0)"
  "CreateClusterMember env_ok (InstanceServer 0) \<lparr>member_ServerName = ''node2''\<rparr> 0 =
     (Inr (Operation 2), 0)"
  "Operation_Get env_ok (Operation 2) 0 = (api_Operation ''token operation'', 0)"
  "ToClusterJoinToken env_ok (api_Operation ''token operation'') =
     Inr (ClusterMemberJoinToken ''join token'')"
  "JoinToken_String env_ok (ClusterMemberJoinToken ''join token'') = ''join token''"
  "ToClusterJoinToken env_bad_operation (api_Operation ''token operation'') =
     Inl (ErrorString ''not a token operation'')"
  by (simp_all add: example_defs)

subsection \<open>Join: trust first, membership second\<close>

text \<open>
  Claim C1.  Every run of \<open>Join\<close> is faithful: its log holds exactly the calls it made.
  If \<open>UpdateCluster\<close> is called at all, then the calls made before it are exactly: the
  token decoded successfully, the server certificate loaded successfully from the
  service's directory, and \<open>SetupTrust\<close> returned without error for that certificate, the
  cluster address and certificate of the decoded token, and the token itself as the
  secret.  If decoding the token, loading the certificate or \<open>SetupTrust\<close> fails, then
  \<open>Join\<close> returns an error, its log ends with the failed call and the world it leaves is
  the world that call left: \<open>UpdateCluster\<close> was not applied.  If the three steps succeed,
  the next call is \<open>UpdateCluster\<close>, applied to the world that \<open>SetupTrust\<close> left.
\<close>

theorem Join_trust_before_UpdateCluster:
  "faithful env st (Join env s token st)
   \<and> ((\<exists>ev \<in> set (calls_of st (Join env s token st)). is_UpdateCluster ev) \<longrightarrow>
        (\<exists>config serverCert.
           takeWhile (\<lambda>ev. \<not> is_UpdateCluster ev) (calls_of st (Join env s token st)) =
             [configFromToken_ev s token (Inr config), LoadServerCert_ev (dir s) (Inr serverCert),
              trust_ev serverCert config token None]))
   \<and> ((\<exists>ev \<in> set (calls_of st (Join env s token st)). trust_step ev \<and> failure ev \<noteq> None) \<longrightarrow>
        fst (Join env s token st) \<noteq> None
        \<and> (\<forall>ev \<in> set (calls_of st (Join env s token st)). \<not> is_UpdateCluster ev))
   \<and> (\<forall>config serverCert e L w.
        L \<in> set [[configFromToken_ev s token (Inl e)],
                 [configFromToken_ev s token (Inr config), LoadServerCert_ev (dir s) (Inl e)],
                 [configFromToken_ev s token (Inr config),
                  LoadServerCert_ev (dir s) (Inr serverCert),
                  trust_ev serverCert config token (Some e)]]
        \<and> replay env L (world st) = Some w \<longrightarrow>
        fst (Join env s token st) \<noteq> None
        \<and> snd (Join env s token st) = state_after st w L)
   \<and> (\<forall>config serverCert w3 res w4.
        replay env
          [configFromToken_ev s token (Inr config), LoadServerCert_ev (dir s) (Inr serverCert),
           trust_ev serverCert config token None] (world st) = Some w3
        \<and> UpdateCluster env (client s) config '''' w3 = (res, w4) \<longrightarrow>
        (\<exists>rest. calls_of st (Join env s token st) =
            [configFromToken_ev s token (Inr config), LoadServerCert_ev (dir s) (Inr serverCert),
             trust_ev serverCert config token None,
             UpdateCluster_ev (client s) config '''' res] @ rest
           \<and> replay env rest w4 = Some (world (snd (Join env s token st)))))"
proof -
  have 1: "(\<exists>ev \<in> set (calls_of st (Join env s token st)). is_UpdateCluster ev) \<longrightarrow>
        (\<exists>config serverCert.
           takeWhile (\<lambda>ev. \<not> is_UpdateCluster ev) (calls_of st (Join env s token st)) =
             [configFromToken_ev s token (Inr config), LoadServerCert_ev (dir s) (Inr serverCert),
              trust_ev serverCert config token None])"
    using Join_shape [of st env s token]
    by (elim disjE exE conjE) simp_all
  have 2: "(\<exists>ev \<in> set (calls_of st (Join env s token st)). trust_step ev \<and> failure ev \<noteq> None) \<longrightarrow>
        fst (Join env s token st) \<noteq> None
        \<and> (\<forall>ev \<in> set (calls_of st (Join env s token st)). \<not> is_UpdateCluster ev)"
    using Join_shape [of st env s token]
    by (elim disjE exE conjE) simp_all
  have 3: "\<forall>config serverCert e L w.
        L \<in> set [[configFromToken_ev s token (Inl e)],
                 [configFromToken_ev s token (Inr config), LoadServerCert_ev (dir s) (Inl e)],
                 [configFromToken_ev s token (Inr config),
                  LoadServerCert_ev (dir s) (Inr serverCert),
                  trust_ev serverCert config token (Some e)]]
        \<and> replay env L (world st) = Some w \<longrightarrow>
        fst (Join env s token st) \<noteq> None
        \<and> snd (Join env s token st) = state_after st w L"
    by (auto dest!: Join_decode_fails Join_cert_fails Join_trust_fails)
  have 4: "\<forall>config serverCert w3 res w4.
        replay env
          [configFromToken_ev s token (Inr config), LoadServerCert_ev (dir s) (Inr serverCert),
           trust_ev serverCert config token None] (world st) = Some w3
        \<and> UpdateCluster env (client s) config '''' w3 = (res, w4) \<longrightarrow>
        (\<exists>rest. calls_of st (Join env s token st) =
            [configFromToken_ev s token (Inr config), LoadServerCert_ev (dir s) (Inr serverCert),
             trust_ev serverCert config token None,
             UpdateCluster_ev (client s) config '''' res] @ rest
           \<and> replay env rest w4 = Some (world (snd (Join env s token st))))"
    using Join_after_trust [of env s token _ _ st] by blast
  from Join_faithful [of env st s token] 1 2 3 4 show ?thesis by (intro conjI)
qed

theorem Join_trust_before_UpdateCluster_witness:
  "faithful env_ok fresh (Join env_ok node1 ''tok'' fresh)
   \<and> (\<exists>ev \<in> set (calls_of fresh (Join env_ok node1 ''tok'' fresh)). is_UpdateCluster ev)
   \<and> (\<exists>config serverCert.
         takeWhile (\<lambda>ev. \<not> is_UpdateCluster ev) (calls_of fresh (Join env_ok node1 ''tok'' fresh)) =
           [configFromToken_ev node1 ''tok'' (Inr config),
            LoadServerCert_ev (dir node1) (Inr serverCert),
            trust_ev serverCert config ''tok'' None])
   \<and> replay env_ok trusted (world fresh) = Some 0
   \<and> UpdateCluster env_ok (client node1) config1 '''' 0 = (Inr (Operation 1), Suc 0)
   \<and> (\<exists>rest. calls_of fresh (Join env_ok node1 ''tok'' fresh) =
          trusted @ [UpdateCluster_ev (client node1) config1 '''' (Inr (Operation 1))] @ rest
        \<and> replay env_ok rest (Suc 0) = Some (world (snd (Join env_ok node1 ''tok'' fresh))))
   \<and> (\<exists>ev \<in> set (calls_of fresh (Join env_untrusted node1 ''tok'' fresh)).
         trust_step ev \<and> failure ev \<noteq> None)
   \<and> replay env_untrusted refused_trust (world fresh) = Some 0
   \<and> fst (Join env_untrusted node1 ''tok'' fresh) \<noteq> None
   \<and> snd (Join env_untrusted node1 ''tok'' fresh) = state_after fresh 0 refused_trust
   \<and> filter is_UpdateCluster (calls_of fresh (Join env_untrusted node1 ''tok'' fresh)) = []"
proof -
  note ok = Join_trust_before_UpdateCluster [of env_ok fresh node1 "''tok''"]
  note bad = Join_trust_before_UpdateCluster [of env_untrusted fresh node1 "''tok''"]
  have updated: "\<exists>ev \<in> set (calls_of fresh (Join env_ok node1 ''tok'' fresh)). is_UpdateCluster ev"
    by (simp add: example_calls)
  have trust: "replay env_ok
      [configFromToken_ev node1 ''tok'' (Inr config1),
       LoadServerCert_ev (dir node1) (Inr (CertInfo ''server.crt'')),
       trust_ev (CertInfo ''server.crt'') config1 ''tok'' None] (world fresh) = Some 0"
    using example_replays(1) by (simp add: node1_fields example_worlds)
  have call: "UpdateCluster env_ok (client node1) config1 '''' 0 = (Inr (Operation 1), Suc 0)"
    by (simp add: example_calls_made node1_fields)
  have failed: "\<exists>ev \<in> set (calls_of fresh (Join env_untrusted node1 ''tok'' fresh)).
      trust_step ev \<and> failure ev \<noteq> None"
    by (simp add: example_calls)
  have refused: "replay env_untrusted
      [configFromToken_ev node1 ''tok'' (Inr config1),
       LoadServerCert_ev (dir node1) (Inr (CertInfo ''server.crt'')),
       trust_ev (CertInfo ''server.crt'') config1 ''tok'' (Some (ErrorString ''not authorized''))]
      (world fresh) = Some 0"
    using example_replays(2) by (simp add: node1_fields example_worlds)
  from ok have 0: "faithful env_ok fresh (Join env_ok node1 ''tok'' fresh)"
    by blast
  from ok updated have 1: "\<exists>config serverCert.
         takeWhile (\<lambda>ev. \<not> is_UpdateCluster ev) (calls_of fresh (Join env_ok node1 ''tok'' fresh)) =
           [configFromToken_ev node1 ''tok'' (Inr config),
            LoadServerCert_ev (dir node1) (Inr serverCert),
            trust_ev serverCert config ''tok'' None]"
    by blast
  from ok trust call have "\<exists>rest. calls_of fresh (Join env_ok node1 ''tok'' fresh) =
          [configFromToken_ev node1 ''tok'' (Inr config1),
           LoadServerCert_ev (dir node1) (Inr (CertInfo ''server.crt'')),
           trust_ev (CertInfo ''server.crt'') config1 ''tok'' None,
           UpdateCluster_ev (client node1) config1 '''' (Inr (Operation 1))] @ rest
        \<and> replay env_ok rest (Suc 0) = Some (world (snd (Join env_ok node1 ''tok'' fresh)))"
    by blast
  then have 2: "\<exists>rest. calls_of fresh (Join env_ok node1 ''tok'' fresh) =
          trusted @ [UpdateCluster_ev (client node1) config1 '''' (Inr (Operation 1))] @ rest
        \<and> replay env_ok rest (Suc 0) = Some (world (snd (Join env_ok node1 ''tok'' fresh)))"
    by (simp add: node1_fields)
  from bad failed have 3: "fst (Join env_untrusted node1 ''tok'' fresh) \<noteq> None
      \<and> (\<forall>ev \<in> set (calls_of fresh (Join env_untrusted node1 ''tok'' fresh)). \<not> is_UpdateCluster ev)"
    by blast
  then have 4: "filter is_UpdateCluster (calls_of fresh (Join env_untrusted node1 ''tok'' fresh)) = []"
    by (simp add: filter_empty_conv)
  have member: "[configFromToken_ev node1 ''tok'' (Inr config1),
       LoadServerCert_ev (dir node1) (Inr (CertInfo ''server.crt'')),
       trust_ev (CertInfo ''server.crt'') config1 ''tok'' (Some (ErrorString ''not authorized''))]
     \<in> set [[configFromToken_ev node1 ''tok'' (Inl (ErrorString ''not authorized''))],
             [configFromToken_ev node1 ''tok'' (Inr config1),
              LoadServerCert_ev (dir node1) (Inl (ErrorString ''not authorized''))],
             [configFromToken_ev node1 ''tok'' (Inr config1),
              LoadServerCert_ev (dir node1) (Inr (CertInfo ''server.crt'')),
              trust_ev (CertInfo ''server.crt'') config1 ''tok''
                (Some (ErrorString ''not authorized''))]]"
    by simp
  from bad member refused have "snd (Join env_untrusted node1 ''tok'' fresh) =
      state_after fresh 0
       [configFromToken_ev node1 ''tok'' (Inr config1),
        LoadServerCert_ev (dir node1) (Inr (CertInfo ''server.crt'')),
        trust_ev (CertInfo ''server.crt'') config1 ''tok'' (Some (ErrorString ''not authorized''))]"
    by blast
  then have 5: "snd (Join env_untrusted node1 ''tok'' fresh) = state_after fresh 0 refused_trust"
    by (simp add: node1_fields)
  from trust have 6: "replay env_ok trusted (world fresh) = Some 0"
    by (simp add: node1_fields)
  from refused have 7: "replay env_untrusted refused_trust (world fresh) = Some 0"
    by (simp add: node1_fields)
  from 0 updated 1 6 call 2 failed 7 3 5 4 show ?thesis by (intro conjI) blast+
qed

subsection \<open>Bootstrap on a node that is already clustered\<close>

text \<open>
  Claim C2.  Every run of \<open>Bootstrap\<close> is faithful: its log holds exactly the calls it
  made.  If a run reads a cluster state whose \<open>Enabled\<close> is true, it returns the error
  "This LXD server is already clustered" and makes no \<open>UpdateCluster\<close> call.  That error
  is distinct from every other failure of \<open>Bootstrap\<close>: in a run that did not read such a
  state, any error returned is a different value and has a different message.  And when
  \<open>lxd init\<close> succeeds and \<open>GetCluster\<close>, applied to the world it left, returns a state
  whose \<open>Enabled\<close> is true, \<open>Bootstrap\<close> returns that error and leaves the world that
  \<open>GetCluster\<close> left, with these two calls in the log and no other.
\<close>

theorem Bootstrap_already_clustered:
  "faithful env st (Bootstrap env s st)
   \<and> ((\<exists>ev \<in> set (calls_of st (Bootstrap env s st)). observed_clustered ev) \<longrightarrow>
        fst (Bootstrap env s st) = Some already_clustered
        \<and> (\<forall>ev \<in> set (calls_of st (Bootstrap env s st)). \<not> is_UpdateCluster ev))
   \<and> (\<not> (\<exists>ev \<in> set (calls_of st (Bootstrap env s st)). observed_clustered ev) \<longrightarrow>
        (\<forall>e. fst (Bootstrap env s st) = Some e \<longrightarrow>
           e \<noteq> already_clustered \<and> Error e \<noteq> Error already_clustered))
   \<and> (\<forall>data cl etag w.
        yaml_Marshal env (Bootstrap_initData env s) = Inr data
        \<and> Buffer_Write env data = None
        \<and> replay env [init_ev data None, GetCluster_ev (client s) (Inr (cl, etag))]
             (world st) = Some w
        \<and> Enabled cl \<longrightarrow>
        Bootstrap env s st =
          (Some already_clustered,
           state_after st w [init_ev data None, GetCluster_ev (client s) (Inr (cl, etag))]))"
proof -
  have 1: "(\<exists>ev \<in> set (calls_of st (Bootstrap env s st)). observed_clustered ev) \<longrightarrow>
        fst (Bootstrap env s st) = Some already_clustered
        \<and> (\<forall>ev \<in> set (calls_of st (Bootstrap env s st)). \<not> is_UpdateCluster ev)"
    using Bootstrap_shape [of env s st]
    by (elim disjE exE conjE) simp_all
  have 2: "\<not> (\<exists>ev \<in> set (calls_of st (Bootstrap env s st)). observed_clustered ev) \<longrightarrow>
        (\<forall>e. fst (Bootstrap env s st) = Some e \<longrightarrow>
           e \<noteq> already_clustered \<and> Error e \<noteq> Error already_clustered)"
    using Bootstrap_shape [of env s st]
    by (elim disjE exE conjE) simp_all
  have 3: "\<forall>data cl etag w.
        yaml_Marshal env (Bootstrap_initData env s) = Inr data
        \<and> Buffer_Write env data = None
        \<and> replay env [init_ev data None, GetCluster_ev (client s) (Inr (cl, etag))]
             (world st) = Some w
        \<and> Enabled cl \<longrightarrow>
        Bootstrap env s st =
          (Some already_clustered,
           state_after st w [init_ev data None, GetCluster_ev (client s) (Inr (cl, etag))])"
    using Bootstrap_refuses [of env s _ _ _ st] by blast
  from Bootstrap_faithful [of env st s] 1 2 3 show ?thesis by (intro conjI)
qed

theorem Bootstrap_already_clustered_witness:
  "faithful env_ok clustered (Bootstrap env_ok node1 clustered)
   \<and> (\<exists>ev \<in> set (calls_of clustered (Bootstrap env_ok node1 clustered)). observed_clustered ev)
   \<and> fst (Bootstrap env_ok node1 clustered) = Some already_clustered
   \<and> filter is_UpdateCluster (calls_of clustered (Bootstrap env_ok node1 clustered)) = []
   \<and> replay env_ok [init_ev ''preseed'' None, read_clustered] (world clustered) = Some (Suc 0)
   \<and> Bootstrap env_ok node1 clustered =
       (Some already_clustered,
        state_after clustered (Suc 0) [init_ev ''preseed'' None, read_clustered])
   \<and> \<not> (\<exists>ev \<in> set (calls_of fresh (Bootstrap env_init_fails node1 fresh)). observed_clustered ev)
   \<and> (\<exists>e. fst (Bootstrap env_init_fails node1 fresh) = Some e
         \<and> e \<noteq> already_clustered \<and> Error e \<noteq> Error already_clustered)"
proof -
  note ok = Bootstrap_already_clustered [of env_ok clustered node1]
  note bad = Bootstrap_already_clustered [of env_init_fails fresh node1]
  have seen: "\<exists>ev \<in> set (calls_of clustered (Bootstrap env_ok node1 clustered)). observed_clustered ev"
    by (simp add: example_calls)
  have unseen:
    "\<not> (\<exists>ev \<in> set (calls_of fresh (Bootstrap env_init_fails node1 fresh)). observed_clustered ev)"
    by (simp add: example_calls)
  have read: "replay env_ok
      [init_ev ''preseed'' None,
       GetCluster_ev (client node1) (Inr (\<lparr>ServerName = '''', Enabled = True\<rparr>, ''etag-1''))]
      (world clustered) = Some (Suc 0)"
    using example_replays(6) by (simp add: node1_fields example_worlds)
  have enabled: "Enabled \<lparr>ServerName = '''', Enabled = True\<rparr>"
    by simp
  from ok have 0: "faithful env_ok clustered (Bootstrap env_ok node1 clustered)"
    by blast
  from ok seen
  have 1: "fst (Bootstrap env_ok node1 clustered) = Some already_clustered
      \<and> (\<forall>ev \<in> set (calls_of clustered (Bootstrap env_ok node1 clustered)). \<not> is_UpdateCluster ev)"
    by blast
  then have 2: "filter is_UpdateCluster (calls_of clustered (Bootstrap env_ok node1 clustered)) = []"
    by (simp add: filter_empty_conv)
  from ok example_preseed(1,2) read enabled
  have "Bootstrap env_ok node1 clustered =
       (Some already_clustered,
        state_after clustered (Suc 0)
          [init_ev ''preseed'' None,
           GetCluster_ev (client node1) (Inr (\<lparr>ServerName = '''', Enabled = True\<rparr>, ''etag-1''))])"
    by blast
  then have 3: "Bootstrap env_ok node1 clustered =
       (Some already_clustered,
        state_after clustered (Suc 0) [init_ev ''preseed'' None, read_clustered])"
    by (simp add: node1_fields)
  from read have 4:
    "replay env_ok [init_ev ''preseed'' None, read_clustered] (world clustered) = Some (Suc 0)"
    by (simp add: node1_fields)
  from bad unseen
  have 5: "\<forall>e. fst (Bootstrap env_init_fails node1 fresh) = Some e \<longrightarrow>
           e \<noteq> already_clustered \<and> Error e \<noteq> Error already_clustered"
    by blast
  have 6: "\<exists>e. fst (Bootstrap env_init_fails node1 fresh) = Some e"
    by (simp add: Bootstrap_init_fails_run)
  from 5 6 have 7: "\<exists>e. fst (Bootstrap env_init_fails node1 fresh) = Some e
         \<and> e \<noteq> already_clustered \<and> Error e \<noteq> Error already_clustered"
    by blast
  from 0 seen 1 2 4 3 unseen 7 show ?thesis by (intro conjI) blast+
qed

subsection \<open>Bootstrap: local initialization comes first\<close>

text \<open>
  Claim C9.  Every run of \<open>Bootstrap\<close> is faithful.  In every run that fetches the cluster
  state, the only call before the fetch is \<open>lxd init --preseed\<close> on the encoded preseed,
  and it succeeded; a run that ends with the already-clustered error has made exactly that
  call and then read a cluster state whose \<open>Enabled\<close> is true.  When the preseed is encoded
  and buffered, \<open>lxd init\<close> is applied to the world the run started in: if it succeeds,
  \<open>GetCluster\<close> is applied next, to the world that \<open>lxd init\<close> left; if it fails, the run
  ends there with the wrapped error.  On a node that is already clustered, \<open>lxd init\<close> is
  therefore run before the already-clustered error is returned.
\<close>

theorem Bootstrap_init_before_GetCluster:
  "faithful env st (Bootstrap env s st)
   \<and> ((\<exists>ev \<in> set (calls_of st (Bootstrap env s st)). is_GetCluster ev) \<longrightarrow>
        (\<exists>data. yaml_Marshal env (Bootstrap_initData env s) = Inr data
           \<and> takeWhile (\<lambda>ev. \<not> is_GetCluster ev) (calls_of st (Bootstrap env s st)) =
               [init_ev data None]))
   \<and> (fst (Bootstrap env s st) = Some already_clustered \<longrightarrow>
        (\<exists>data cl etag. calls_of st (Bootstrap env s st) =
            [init_ev data None, GetCluster_ev (client s) (Inr (cl, etag))] \<and> Enabled cl))
   \<and> (\<forall>data w1 r w2.
        yaml_Marshal env (Bootstrap_initData env s) = Inr data
        \<and> Buffer_Write env data = None
        \<and> RunCommandWithFds env data ''lxd'' [''init'', ''--preseed''] (world st) = (None, w1)
        \<and> GetCluster env (client s) w1 = (r, w2) \<longrightarrow>
        (\<exists>rest. calls_of st (Bootstrap env s st) =
            [init_ev data None, GetCluster_ev (client s) r] @ rest
           \<and> replay env rest w2 = Some (world (snd (Bootstrap env s st)))))
   \<and> (\<forall>data e w1.
        yaml_Marshal env (Bootstrap_initData env s) = Inr data
        \<and> Buffer_Write env data = None
        \<and> RunCommandWithFds env data ''lxd'' [''init'', ''--preseed''] (world st) = (Some e, w1) \<longrightarrow>
        Bootstrap env s st =
          (Some (WrapError ''Failed to initialize LXD: '' e),
           state_after st w1 [init_ev data (Some e)]))
   \<and> (\<forall>data w1 cl etag w2.
        yaml_Marshal env (Bootstrap_initData env s) = Inr data
        \<and> Buffer_Write env data = None
        \<and> RunCommandWithFds env data ''lxd'' [''init'', ''--preseed''] (world st) = (None, w1)
        \<and> GetCluster env (client s) w1 = (Inr (cl, etag), w2)
        \<and> Enabled cl \<longrightarrow>
        Bootstrap env s st =
          (Some already_clustered,
           state_after st w2 [init_ev data None, GetCluster_ev (client s) (Inr (cl, etag))]))"
proof -
  have 1: "(\<exists>ev \<in> set (calls_of st (Bootstrap env s st)). is_GetCluster ev) \<longrightarrow>
        (\<exists>data. yaml_Marshal env (Bootstrap_initData env s) = Inr data
           \<and> takeWhile (\<lambda>ev. \<not> is_GetCluster ev) (calls_of st (Bootstrap env s st)) =
               [init_ev data None])"
    using Bootstrap_shape [of env s st]
    by (elim disjE exE conjE) simp_all
  have 2: "fst (Bootstrap env s st) = Some already_clustered \<longrightarrow>
        (\<exists>data cl etag. calls_of st (Bootstrap env s st) =
            [init_ev data None, GetCluster_ev (client s) (Inr (cl, etag))] \<and> Enabled cl)"
    using Bootstrap_shape [of env s st]
    by (elim disjE exE conjE) simp_all
  have 3: "\<forall>data w1 r w2.
        yaml_Marshal env (Bootstrap_initData env s) = Inr data
        \<and> Buffer_Write env data = None
        \<and> RunCommandWithFds env data ''lxd'' [''init'', ''--preseed''] (world st) = (None, w1)
        \<and> GetCluster env (client s) w1 = (r, w2) \<longrightarrow>
        (\<exists>rest. calls_of st (Bootstrap env s st) =
            [init_ev data None, GetCluster_ev (client s) r] @ rest
           \<and> replay env rest w2 = Some (world (snd (Bootstrap env s st))))"
    using Bootstrap_after_init [of env s _ st] by blast
  have 4: "\<forall>data e w1.
        yaml_Marshal env (Bootstrap_initData env s) = Inr data
        \<and> Buffer_Write env data = None
        \<and> RunCommandWithFds env data ''lxd'' [''init'', ''--preseed''] (world st) = (Some e, w1) \<longrightarrow>
        Bootstrap env s st =
          (Some (WrapError ''Failed to initialize LXD: '' e),
           state_after st w1 [init_ev data (Some e)])"
    by (simp add: Bootstrap_def perform_def)
  have 5: "\<forall>data w1 cl etag w2.
        yaml_Marshal env (Bootstrap_initData env s) = Inr data
        \<and> Buffer_Write env data = None
        \<and> RunCommandWithFds env data ''lxd'' [''init'', ''--preseed''] (world st) = (None, w1)
        \<and> GetCluster env (client s) w1 = (Inr (cl, etag), w2)
        \<and> Enabled cl \<longrightarrow>
        Bootstrap env s st =
          (Some already_clustered,
           state_after st w2 [init_ev data None, GetCluster_ev (client s) (Inr (cl, etag))])"
    by (simp add: Bootstrap_def Bootstrap_cluster_def perform_def)
  from Bootstrap_faithful [of env st s] 1 2 3 4 5 show ?thesis by (intro conjI)
qed

theorem Bootstrap_init_before_GetCluster_witness:
  "faithful env_ok clustered (Bootstrap env_ok node1 clustered)
   \<and> (\<exists>ev \<in> set (calls_of clustered (Bootstrap env_ok node1 clustered)). is_GetCluster ev)
   \<and> (\<exists>data. yaml_Marshal env_ok (Bootstrap_initData env_ok node1) = Inr data
         \<and> takeWhile (\<lambda>ev. \<not> is_GetCluster ev)
             (calls_of clustered (Bootstrap env_ok node1 clustered)) = [init_ev data None])
   \<and> fst (Bootstrap env_ok node1 clustered) = Some already_clustered
   \<and> (\<exists>data cl etag. calls_of clustered (Bootstrap env_ok node1 clustered) =
            [init_ev data None, GetCluster_ev (client node1) (Inr (cl, etag))] \<and> Enabled cl)
   \<and> RunCommandWithFds env_ok ''preseed'' ''lxd'' [''init'', ''--preseed''] (world clustered) =
       (None, Suc 0)
   \<and> GetCluster env_ok (client node1) (Suc 0) =
       (Inr (\<lparr>ServerName = '''', Enabled = True\<rparr>, ''etag-1''), Suc 0)
   \<and> (\<exists>rest. calls_of clustered (Bootstrap env_ok node1 clustered) =
          [init_ev ''preseed'' None, read_clustered] @ rest
        \<and> replay env_ok rest (Suc 0) = Some (world (snd (Bootstrap env_ok node1 clustered))))
   \<and> Bootstrap env_ok node1 clustered =
       (Some already_clustered,
        state_after clustered (Suc 0) [init_ev ''preseed'' None, read_clustered])
   \<and> RunCommandWithFds env_init_fails ''preseed'' ''lxd'' [''init'', ''--preseed''] (world fresh) =
       (Some (ErrorString ''exit status 1''), 0)
   \<and> Bootstrap env_init_fails node1 fresh =
       (Some (WrapError ''Failed to initialize LXD: '' (ErrorString ''exit status 1'')),
        state_after fresh 0 [init_ev ''preseed'' (Some (ErrorString ''exit status 1''))])"
proof -
  note ok = Bootstrap_init_before_GetCluster [of env_ok clustered node1]
  note bad = Bootstrap_init_before_GetCluster [of env_init_fails fresh node1]
  have fetched: "\<exists>ev \<in> set (calls_of clustered (Bootstrap env_ok node1 clustered)). is_GetCluster ev"
    by (simp add: example_calls)
  have refused: "fst (Bootstrap env_ok node1 clustered) = Some already_clustered"
    by (simp add: Bootstrap_clustered_run)
  have init: "RunCommandWithFds env_ok ''preseed'' ''lxd'' [''init'', ''--preseed''] (world clustered) =
       (None, Suc 0)"
    by (simp add: example_calls_made example_worlds)
  have get: "GetCluster env_ok (client node1) (Suc 0) =
       (Inr (\<lparr>ServerName = '''', Enabled = True\<rparr>, ''etag-1''), Suc 0)"
    by (simp add: example_calls_made node1_fields)
  have enabled: "Enabled \<lparr>ServerName = '''', Enabled = True\<rparr>"
    by simp
  have init_fails:
    "RunCommandWithFds env_init_fails ''preseed'' ''lxd'' [''init'', ''--preseed''] (world fresh) =
       (Some (ErrorString ''exit status 1''), 0)"
    by (simp add: example_calls_made example_worlds)
  from ok have 0: "faithful env_ok clustered (Bootstrap env_ok node1 clustered)"
    by blast
  from ok fetched
  have 1: "\<exists>data. yaml_Marshal env_ok (Bootstrap_initData env_ok node1) = Inr data
         \<and> takeWhile (\<lambda>ev. \<not> is_GetCluster ev)
             (calls_of clustered (Bootstrap env_ok node1 clustered)) = [init_ev data None]"
    by blast
  from ok refused
  have 2: "\<exists>data cl etag. calls_of clustered (Bootstrap env_ok node1 clustered) =
            [init_ev data None, GetCluster_ev (client node1) (Inr (cl, etag))] \<and> Enabled cl"
    by blast
  from ok example_preseed(1,2) init get
  have "\<exists>rest. calls_of clustered (Bootstrap env_ok node1 clustered) =
          [init_ev ''preseed'' None,
           GetCluster_ev (client node1) (Inr (\<lparr>ServerName = '''', Enabled = True\<rparr>, ''etag-1''))]
            @ rest
        \<and> replay env_ok rest (Suc 0) = Some (world (snd (Bootstrap env_ok node1 clustered)))"
    by blast
  then have 3: "\<exists>rest. calls_of clustered (Bootstrap env_ok node1 clustered) =
          [init_ev ''preseed'' None, read_clustered] @ rest
        \<and> replay env_ok rest (Suc 0) = Some (world (snd (Bootstrap env_ok node1 clustered)))"
    by (simp add: node1_fields)
  from ok example_preseed(1,2) init get enabled
  have "Bootstrap env_ok node1 clustered =
       (Some already_clustered,
        state_after clustered (Suc 0)
          [init_ev ''preseed'' None,
           GetCluster_ev (client node1) (Inr (\<lparr>ServerName = '''', Enabled = True\<rparr>, ''etag-1''))])"
    by blast
  then have 4: "Bootstrap env_ok node1 clustered =
       (Some already_clustered,
        state_after clustered (Suc 0) [init_ev ''preseed'' None, read_clustered])"
    by (simp add: node1_fields)
  from bad example_preseed(3,4) init_fails
  have 5: "Bootstrap env_init_fails node1 fresh =
       (Some (WrapError ''Failed to initialize LXD: '' (ErrorString ''exit status 1'')),
        state_after fresh 0 [init_ev ''preseed'' (Some (ErrorString ''exit status 1''))])"
    by blast
  from 0 fetched 1 refused 2 init get 3 4 init_fails 5 show ?thesis by (intro conjI) blast+
qed

subsection \<open>Bootstrap: what is sent to UpdateCluster\<close>

text \<open>
  Claim C5.  Let the service be one that \<open>NewLXDService\<close> returned for the name \<open>nm\<close>.
  Every run of \<open>Bootstrap\<close> is faithful.  In a run that reads a cluster state whose
  \<open>Enabled\<close> is false, the call right after that read is \<open>UpdateCluster\<close> with the
  configuration whose server name is \<open>nm\<close>, whose \<open>Enabled\<close> is true and whose other fields
  are empty, and with the etag that the read returned; if \<open>UpdateCluster\<close> returns an
  operation, the next and last call waits for that operation, and otherwise nothing
  follows.  A run that returns no error consists of exactly these calls: initialization,
  read, update, wait, all successful.  And when initialization succeeds and the read
  returns a state whose \<open>Enabled\<close> is false together with an etag, \<open>UpdateCluster\<close> is
  applied with that configuration and that etag to the world the read left: if it fails,
  \<open>Bootstrap\<close> returns its error, wrapped; if it returns an operation, \<open>Wait\<close> is applied
  to that operation on the world that \<open>UpdateCluster\<close> left, \<open>Bootstrap\<close> returns what the
  wait returned (an error wrapped) and leaves the world that the wait left.
\<close>

theorem Bootstrap_UpdateCluster_arguments:
  assumes "fst (NewLXDService env nm addr d st0) = Inr s"
  shows "faithful env st (Bootstrap env s st)
         \<and> (\<forall>cl etag.
              GetCluster_ev (client s) (Inr (cl, etag)) \<in> set (calls_of st (Bootstrap env s st))
              \<and> \<not> Enabled cl \<longrightarrow>
              (\<exists>data res awaited.
                 calls_of st (Bootstrap env s st) =
                   [init_ev data None, GetCluster_ev (client s) (Inr (cl, etag)),
                    UpdateCluster_ev (client s) (enable_put nm) etag res] @ awaited
                 \<and> (case res of Inl e \<Rightarrow> awaited = []
                     | Inr op \<Rightarrow> \<exists>r. awaited = [Wait_ev op r])))
         \<and> (fst (Bootstrap env s st) = None \<longrightarrow>
              (\<exists>data cl etag op.
                 calls_of st (Bootstrap env s st) =
                   [init_ev data None, GetCluster_ev (client s) (Inr (cl, etag)),
                    UpdateCluster_ev (client s) (enable_put nm) etag (Inr op), Wait_ev op None]
                 \<and> \<not> Enabled cl))
         \<and> (\<forall>data cl etag e w.
              yaml_Marshal env (Bootstrap_initData env s) = Inr data
              \<and> Buffer_Write env data = None
              \<and> \<not> Enabled cl
              \<and> replay env
                   [init_ev data None, GetCluster_ev (client s) (Inr (cl, etag)),
                    UpdateCluster_ev (client s) (enable_put nm) etag (Inl e)] (world st) = Some w \<longrightarrow>
              Bootstrap env s st =
                (Some (WrapError ''Failed to enable clustering on local LXD: '' e),
                 state_after st w
                   [init_ev data None, GetCluster_ev (client s) (Inr (cl, etag)),
                    UpdateCluster_ev (client s) (enable_put nm) etag (Inl e)]))
         \<and> (\<forall>data cl etag op r w.
              yaml_Marshal env (Bootstrap_initData env s) = Inr data
              \<and> Buffer_Write env data = None
              \<and> \<not> Enabled cl
              \<and> replay env
                   [init_ev data None, GetCluster_ev (client s) (Inr (cl, etag)),
                    UpdateCluster_ev (client s) (enable_put nm) etag (Inr op), Wait_ev op r]
                   (world st) = Some w \<longrightarrow>
              Bootstrap env s st =
                ((case r of None \<Rightarrow> None
                  | Some e \<Rightarrow> Some (WrapError ''Failed to configure cluster :'' e)),
                 state_after st w
                   [init_ev data None, GetCluster_ev (client s) (Inr (cl, etag)),
                    UpdateCluster_ev (client s) (enable_put nm) etag (Inr op), Wait_ev op r]))"
proof -
  have nm: "name s = nm"
    using NewLXDService_fields(1) [OF assms] .
  have 1: "\<forall>cl etag.
              GetCluster_ev (client s) (Inr (cl, etag)) \<in> set (calls_of st (Bootstrap env s st))
              \<and> \<not> Enabled cl \<longrightarrow>
              (\<exists>data res awaited.
                 calls_of st (Bootstrap env s st) =
                   [init_ev data None, GetCluster_ev (client s) (Inr (cl, etag)),
                    UpdateCluster_ev (client s) (enable_put nm) etag res] @ awaited
                 \<and> (case res of Inl e \<Rightarrow> awaited = []
                     | Inr op \<Rightarrow> \<exists>r. awaited = [Wait_ev op r]))"
    using Bootstrap_shape [of env s st] nm
    by (elim disjE exE conjE) auto
  have 2: "fst (Bootstrap env s st) = None \<longrightarrow>
              (\<exists>data cl etag op.
                 calls_of st (Bootstrap env s st) =
                   [init_ev data None, GetCluster_ev (client s) (Inr (cl, etag)),
                    UpdateCluster_ev (client s) (enable_put nm) etag (Inr op), Wait_ev op None]
                 \<and> \<not> Enabled cl)"
    using Bootstrap_shape [of env s st] nm
    by (elim disjE exE conjE) auto
  have 3: "\<forall>data cl etag e w.
              yaml_Marshal env (Bootstrap_initData env s) = Inr data
              \<and> Buffer_Write env data = None
              \<and> \<not> Enabled cl
              \<and> replay env
                   [init_ev data None, GetCluster_ev (client s) (Inr (cl, etag)),
                    UpdateCluster_ev (client s) (enable_put nm) etag (Inl e)] (world st) = Some w \<longrightarrow>
              Bootstrap env s st =
                (Some (WrapError ''Failed to enable clustering on local LXD: '' e),
                 state_after st w
                   [init_ev data None, GetCluster_ev (client s) (Inr (cl, etag)),
                    UpdateCluster_ev (client s) (enable_put nm) etag (Inl e)])"
    using Bootstrap_update_fails [of env s _ _ _ _ st] unfolding nm by blast
  have 4: "\<forall>data cl etag op r w.
              yaml_Marshal env (Bootstrap_initData env s) = Inr data
              \<and> Buffer_Write env data = None
              \<and> \<not> Enabled cl
              \<and> replay env
                   [init_ev data None, GetCluster_ev (client s) (Inr (cl, etag)),
                    UpdateCluster_ev (client s) (enable_put nm) etag (Inr op), Wait_ev op r]
                   (world st) = Some w \<longrightarrow>
              Bootstrap env s st =
                ((case r of None \<Rightarrow> None
                  | Some e \<Rightarrow> Some (WrapError ''Failed to configure cluster :'' e)),
                 state_after st w
                   [init_ev data None, GetCluster_ev (client s) (Inr (cl, etag)),
                    UpdateCluster_ev (client s) (enable_put nm) etag (Inr op), Wait_ev op r])"
    using Bootstrap_waits [of env s _ _ _ _ _ st] unfolding nm by blast
  from Bootstrap_faithful [of env st s] 1 2 3 4 show ?thesis by (intro conjI)
qed

theorem Bootstrap_UpdateCluster_arguments_witness:
  "fst (NewLXDService env_ok ''node1'' ''10.0.0.5'' ''/var/lib/lxd'' fresh) = Inr node1
   \<and> faithful env_ok fresh (Bootstrap env_ok node1 fresh)
   \<and> read_open \<in> set (calls_of fresh (Bootstrap env_ok node1 fresh))
   \<and> (\<exists>data res awaited.
         calls_of fresh (Bootstrap env_ok node1 fresh) =
           [init_ev data None, read_open,
            UpdateCluster_ev (client node1) (enable_put ''node1'') ''etag-1'' res] @ awaited
         \<and> (case res of Inl e \<Rightarrow> awaited = [] | Inr op \<Rightarrow> \<exists>r. awaited = [Wait_ev op r]))
   \<and> fst (Bootstrap env_ok node1 fresh) = None
   \<and> (\<exists>data cl etag op.
         calls_of fresh (Bootstrap env_ok node1 fresh) =
           [init_ev data None, GetCluster_ev (client node1) (Inr (cl, etag)),
            UpdateCluster_ev (client node1) (enable_put ''node1'') etag (Inr op), Wait_ev op None]
         \<and> \<not> Enabled cl)
   \<and> replay env_ok
        [init_ev ''preseed'' None, read_open,
         UpdateCluster_ev (InstanceServer 0) (enable_put ''node1'') ''etag-1'' (Inr (Operation 1)),
         Wait_ev (Operation 1) None] (world fresh) = Some (Suc 0)
   \<and> Bootstrap env_ok node1 fresh =
       (None,
        state_after fresh (Suc 0)
          [init_ev ''preseed'' None, read_open,
           UpdateCluster_ev (InstanceServer 0) (enable_put ''node1'') ''etag-1''
             (Inr (Operation 1)),
           Wait_ev (Operation 1) None])
   \<and> replay env_stale
        [init_ev ''preseed'' None, read_open,
         UpdateCluster_ev (InstanceServer 0) (enable_put ''node1'') ''etag-1''
           (Inl (ErrorString ''precondition failed''))] (world fresh) = Some 0
   \<and> Bootstrap env_stale node1 fresh =
       (Some (WrapError ''Failed to enable clustering on local LXD: ''
                (ErrorString ''precondition failed'')),
        state_after fresh 0
          [init_ev ''preseed'' None, read_open,
           UpdateCluster_ev (InstanceServer 0) (enable_put ''node1'') ''etag-1''
             (Inl (ErrorString ''precondition failed''))])"
proof -
  have made_ok: "fst (NewLXDService env_ok ''node1'' ''10.0.0.5'' ''/var/lib/lxd'' fresh) = Inr node1"
    by (rule NewLXDService_ok_run)
  have made_stale:
    "fst (NewLXDService env_stale ''node1'' ''10.0.0.5'' ''/var/lib/lxd'' fresh) = Inr node1"
    by (simp add: NewLXDService_def perform_def example_defs)
  note ok = Bootstrap_UpdateCluster_arguments [OF made_ok, of fresh]
  note stale = Bootstrap_UpdateCluster_arguments [OF made_stale, of fresh]
  have read: "GetCluster_ev (client node1) (Inr (\<lparr>ServerName = '''', Enabled = False\<rparr>, ''etag-1''))
        \<in> set (calls_of fresh (Bootstrap env_ok node1 fresh))"
    by (simp add: example_calls node1_fields)
  have open_node: "\<not> Enabled \<lparr>ServerName = '''', Enabled = False\<rparr>"
    by simp
  have finished: "fst (Bootstrap env_ok node1 fresh) = None"
    by (simp add: Bootstrap_ok_run)
  have waited: "replay env_ok
        [init_ev ''preseed'' None,
         GetCluster_ev (client node1) (Inr (\<lparr>ServerName = '''', Enabled = False\<rparr>, ''etag-1'')),
         UpdateCluster_ev (client node1) (enable_put ''node1'') ''etag-1'' (Inr (Operation 1)),
         Wait_ev (Operation 1) None] (world fresh) = Some (Suc 0)"
    using example_replays(7) by (simp add: node1_fields example_worlds)
  have rejected: "replay env_stale
        [init_ev ''preseed'' None,
         GetCluster_ev (client node1) (Inr (\<lparr>ServerName = '''', Enabled = False\<rparr>, ''etag-1'')),
         UpdateCluster_ev (client node1) (enable_put ''node1'') ''etag-1''
           (Inl (ErrorString ''precondition failed''))] (world fresh) = Some 0"
    using example_replays(9) by (simp add: node1_fields example_worlds)
  from ok have 0: "faithful env_ok fresh (Bootstrap env_ok node1 fresh)"
    by blast
  from ok read open_node have "\<exists>data res awaited.
         calls_of fresh (Bootstrap env_ok node1 fresh) =
           [init_ev data None,
            GetCluster_ev (client node1) (Inr (\<lparr>ServerName = '''', Enabled = False\<rparr>, ''etag-1'')),
            UpdateCluster_ev (client node1) (enable_put ''node1'') ''etag-1'' res] @ awaited
         \<and> (case res of Inl e \<Rightarrow> awaited = [] | Inr op \<Rightarrow> \<exists>r. awaited = [Wait_ev op r])"
    by blast
  then have 1: "\<exists>data res awaited.
         calls_of fresh (Bootstrap env_ok node1 fresh) =
           [init_ev data None, read_open,
            UpdateCluster_ev (client node1) (enable_put ''node1'') ''etag-1'' res] @ awaited
         \<and> (case res of Inl e \<Rightarrow> awaited = [] | Inr op \<Rightarrow> \<exists>r. awaited = [Wait_ev op r])"
    by (simp add: node1_fields)
  from ok finished have 2: "\<exists>data cl etag op.
         calls_of fresh (Bootstrap env_ok node1 fresh) =
           [init_ev data None, GetCluster_ev (client node1) (Inr (cl, etag)),
            UpdateCluster_ev (client node1) (enable_put ''node1'') etag (Inr op), Wait_ev op None]
         \<and> \<not> Enabled cl"
    by blast
  from ok example_preseed(1,2) open_node waited
  have "Bootstrap env_ok node1 fresh =
       ((case None of None \<Rightarrow> None
         | Some e \<Rightarrow> Some (WrapError ''Failed to configure cluster :'' e)),
        state_after fresh (Suc 0)
          [init_ev ''preseed'' None,
           GetCluster_ev (client node1) (Inr (\<lparr>ServerName = '''', Enabled = False\<rparr>, ''etag-1'')),
           UpdateCluster_ev (client node1) (enable_put ''node1'') ''etag-1'' (Inr (Operation 1)),
           Wait_ev (Operation 1) None])"
    by blast
  then have 3: "Bootstrap env_ok node1 fresh =
       (None,
        state_after fresh (Suc 0)
          [init_ev ''preseed'' None, read_open,
           UpdateCluster_ev (InstanceServer 0) (enable_put ''node1'') ''etag-1''
             (Inr (Operation 1)),
           Wait_ev (Operation 1) None])"
    by (simp add: node1_fields)
  from stale example_preseed(5,6) open_node rejected
  have "Bootstrap env_stale node1 fresh =
       (Some (WrapError ''Failed to enable clustering on local LXD: ''
                (ErrorString ''precondition failed'')),
        state_after fresh 0
          [init_ev ''preseed'' None,
           GetCluster_ev (client node1) (Inr (\<lparr>ServerName = '''', Enabled = False\<rparr>, ''etag-1'')),
           UpdateCluster_ev (client node1) (enable_put ''node1'') ''etag-1''
             (Inl (ErrorString ''precondition failed''))])"
    by blast
  then have 4: "Bootstrap env_stale node1 fresh =
       (Some (WrapError ''Failed to enable clustering on local LXD: ''
                (ErrorString ''precondition failed'')),
        state_after fresh 0
          [init_ev ''preseed'' None, read_open,
           UpdateCluster_ev (InstanceServer 0) (enable_put ''node1'') ''etag-1''
             (Inl (ErrorString ''precondition failed''))])"
    by (simp add: node1_fields)
  from read have r': "read_open \<in> set (calls_of fresh (Bootstrap env_ok node1 fresh))"
    by (simp add: node1_fields)
  from waited have w': "replay env_ok
        [init_ev ''preseed'' None, read_open,
         UpdateCluster_ev (InstanceServer 0) (enable_put ''node1'') ''etag-1'' (Inr (Operation 1)),
         Wait_ev (Operation 1) None] (world fresh) = Some (Suc 0)"
    by (simp add: node1_fields)
  from rejected have j': "replay env_stale
        [init_ev ''preseed'' None, read_open,
         UpdateCluster_ev (InstanceServer 0) (enable_put ''node1'') ''etag-1''
           (Inl (ErrorString ''precondition failed''))] (world fresh) = Some 0"
    by (simp add: node1_fields)
  from made_ok 0 r' 1 finished 2 w' 3 j' 4 show ?thesis by (intro conjI) blast+
qed

subsection \<open>Bootstrap: the preseed given to lxd init\<close>

text \<open>
  Claim C6.  Let the service be one that \<open>NewLXDService\<close> returned for the address
  \<open>addr\<close>.  The preseed built by \<open>Bootstrap\<close> sets \<open>core.https_address\<close> to the
  canonical form of \<open>addr\<close> and the port \<open>LXDPort\<close>, has exactly one storage pool, and
  has exactly one profile, named \<open>default\<close>, whose device \<open>root\<close> is a disk with path
  \<open>/\<close>.  Every run of \<open>Bootstrap\<close> is faithful.  When that preseed is encoded and
  buffered without error, the first thing the run does is apply \<open>lxd init --preseed\<close>, with
  the encoded preseed on its standard input, to the world the run started in; the rest of
  the run starts from the world the command left and runs no other command.  Any command a
  run of \<open>Bootstrap\<close> runs is that one.  When the preseed cannot be encoded or buffered,
  nothing is called.
\<close>

theorem Bootstrap_preseed:
  assumes "fst (NewLXDService env nm addr d st0) = Inr s"
  shows "Config (ServerPut (Node (Bootstrap_initData env s))) ''core.https_address'' =
           Some (CanonicalNetworkAddress env addr (LXDPort env))
         \<and> length (StoragePools (Node (Bootstrap_initData env s))) = 1
         \<and> (\<exists>profile root.
               Profiles (Node (Bootstrap_initData env s)) = [profile]
               \<and> profile_Name profile = ''default''
               \<and> Devices (ProfilePut profile) ''root'' = Some root
               \<and> root ''type'' = Some ''disk'' \<and> root ''path'' = Some ''/'')
         \<and> faithful env st (Bootstrap env s st)
         \<and> (\<forall>data r w1.
               yaml_Marshal env (Bootstrap_initData env s) = Inr data
               \<and> Buffer_Write env data = None
               \<and> RunCommandWithFds env data ''lxd'' [''init'', ''--preseed''] (world st) = (r, w1) \<longrightarrow>
               (\<exists>rest. calls_of st (Bootstrap env s st) = init_ev data r # rest
                  \<and> (\<forall>ev \<in> set rest. \<not> is_RunCommand ev)
                  \<and> replay env rest w1 = Some (world (snd (Bootstrap env s st)))))
         \<and> (\<forall>ev \<in> set (calls_of st (Bootstrap env s st)). is_RunCommand ev \<longrightarrow>
               (\<exists>data r. yaml_Marshal env (Bootstrap_initData env s) = Inr data
                  \<and> ev = init_ev data r))
         \<and> ((\<exists>e. yaml_Marshal env (Bootstrap_initData env s) = Inl e)
             \<or> (\<exists>data e. yaml_Marshal env (Bootstrap_initData env s) = Inr data
                   \<and> Buffer_Write env data = Some e) \<longrightarrow>
              snd (Bootstrap env s st) = st)"
proof -
  have a: "address s = addr" and p: "port s = LXDPort env"
    using NewLXDService_fields [OF assms] by simp_all
  have 1: "Config (ServerPut (Node (Bootstrap_initData env s))) ''core.https_address'' =
           Some (CanonicalNetworkAddress env addr (LXDPort env))"
    by (simp add: Bootstrap_initData_def Let_def a p)
  have 2: "length (StoragePools (Node (Bootstrap_initData env s))) = 1"
    by (simp add: Bootstrap_initData_def Let_def)
  have 3: "\<exists>profile root.
               Profiles (Node (Bootstrap_initData env s)) = [profile]
               \<and> profile_Name profile = ''default''
               \<and> Devices (ProfilePut profile) ''root'' = Some root
               \<and> root ''type'' = Some ''disk'' \<and> root ''path'' = Some ''/''"
    by (simp add: Bootstrap_initData_def Let_def)
  have 4: "\<forall>data r w1.
               yaml_Marshal env (Bootstrap_initData env s) = Inr data
               \<and> Buffer_Write env data = None
               \<and> RunCommandWithFds env data ''lxd'' [''init'', ''--preseed''] (world st) = (r, w1) \<longrightarrow>
               (\<exists>rest. calls_of st (Bootstrap env s st) = init_ev data r # rest
                  \<and> (\<forall>ev \<in> set rest. \<not> is_RunCommand ev)
                  \<and> replay env rest w1 = Some (world (snd (Bootstrap env s st))))"
    using Bootstrap_after_marshal [of env s _ st] by blast
  have 5: "\<forall>ev \<in> set (calls_of st (Bootstrap env s st)). is_RunCommand ev \<longrightarrow>
               (\<exists>data r. yaml_Marshal env (Bootstrap_initData env s) = Inr data
                  \<and> ev = init_ev data r)"
    using Bootstrap_shape [of env s st]
    by (elim disjE exE conjE) simp_all
  have 6: "(\<exists>e. yaml_Marshal env (Bootstrap_initData env s) = Inl e)
             \<or> (\<exists>data e. yaml_Marshal env (Bootstrap_initData env s) = Inr data
                   \<and> Buffer_Write env data = Some e) \<longrightarrow>
              snd (Bootstrap env s st) = st"
    using Bootstrap_yaml_fails [of env s _ st] Bootstrap_buffer_fails [of env s _ _ st]
    by auto
  from 1 2 3 Bootstrap_faithful [of env st s] 4 5 6 show ?thesis by (intro conjI)
qed

theorem Bootstrap_preseed_witness:
  "fst (NewLXDService env_ok ''node1'' ''10.0.0.5'' ''/var/lib/lxd'' fresh) = Inr node1
   \<and> Config (ServerPut (Node (Bootstrap_initData env_ok node1))) ''core.https_address'' =
       Some ''10.0.0.5:8443''
   \<and> faithful env_ok fresh (Bootstrap env_ok node1 fresh)
   \<and> yaml_Marshal env_ok (Bootstrap_initData env_ok node1) = Inr ''preseed''
   \<and> Buffer_Write env_ok ''preseed'' = None
   \<and> RunCommandWithFds env_ok ''preseed'' ''lxd'' [''init'', ''--preseed''] (world fresh) = (None, 0)
   \<and> (\<exists>rest. calls_of fresh (Bootstrap env_ok node1 fresh) = init_ev ''preseed'' None # rest
         \<and> filter is_RunCommand rest = []
         \<and> replay env_ok rest 0 = Some (world (snd (Bootstrap env_ok node1 fresh))))
   \<and> (\<exists>ev \<in> set (calls_of fresh (Bootstrap env_ok node1 fresh)). is_RunCommand ev
         \<and> (\<exists>data r. yaml_Marshal env_ok (Bootstrap_initData env_ok node1) = Inr data
               \<and> ev = init_ev data r))
   \<and> yaml_Marshal (env_ok\<lparr>yaml_Marshal := \<lambda>p. Inl (ErrorString ''cannot marshal'')\<rparr>)
       (Bootstrap_initData (env_ok\<lparr>yaml_Marshal := \<lambda>p. Inl (ErrorString ''cannot marshal'')\<rparr>)
          node1) = Inl (ErrorString ''cannot marshal'')
   \<and> snd (Bootstrap (env_ok\<lparr>yaml_Marshal := \<lambda>p. Inl (ErrorString ''cannot marshal'')\<rparr>)
            node1 fresh) = fresh"
proof -
  have made: "fst (NewLXDService env_ok ''node1'' ''10.0.0.5'' ''/var/lib/lxd'' fresh) = Inr node1"
    by (rule NewLXDService_ok_run)
  have made':
    "fst (NewLXDService (env_ok\<lparr>yaml_Marshal := \<lambda>p. Inl (ErrorString ''cannot marshal'')\<rparr>)
            ''node1'' ''10.0.0.5'' ''/var/lib/lxd'' fresh) = Inr node1"
    by (simp add: NewLXDService_def perform_def example_defs)
  note ok = Bootstrap_preseed [OF made, of fresh]
  note bad = Bootstrap_preseed [OF made', of fresh]
  have canon: "CanonicalNetworkAddress env_ok ''10.0.0.5'' (LXDPort env_ok) = ''10.0.0.5:8443''"
    by (simp add: env_ok_def)
  have init: "RunCommandWithFds env_ok ''preseed'' ''lxd'' [''init'', ''--preseed''] (world fresh) =
      (None, 0)"
    by (simp add: example_calls_made example_worlds)
  have unmarshalled:
    "yaml_Marshal (env_ok\<lparr>yaml_Marshal := \<lambda>p. Inl (ErrorString ''cannot marshal'')\<rparr>)
       (Bootstrap_initData (env_ok\<lparr>yaml_Marshal := \<lambda>p. Inl (ErrorString ''cannot marshal'')\<rparr>)
          node1) = Inl (ErrorString ''cannot marshal'')"
    by simp
  from ok canon have 1:
    "Config (ServerPut (Node (Bootstrap_initData env_ok node1))) ''core.https_address'' =
       Some ''10.0.0.5:8443''"
    by simp
  from ok have 0: "faithful env_ok fresh (Bootstrap env_ok node1 fresh)"
    by blast
  from ok example_preseed(1,2) init
  have "\<exists>rest. calls_of fresh (Bootstrap env_ok node1 fresh) = init_ev ''preseed'' None # rest
         \<and> (\<forall>ev \<in> set rest. \<not> is_RunCommand ev)
         \<and> replay env_ok rest 0 = Some (world (snd (Bootstrap env_ok node1 fresh)))"
    by blast
  then have 2: "\<exists>rest. calls_of fresh (Bootstrap env_ok node1 fresh) = init_ev ''preseed'' None # rest
         \<and> filter is_RunCommand rest = []
         \<and> replay env_ok rest 0 = Some (world (snd (Bootstrap env_ok node1 fresh)))"
    by (simp add: filter_empty_conv)
  have run: "init_ev ''preseed'' None \<in> set (calls_of fresh (Bootstrap env_ok node1 fresh))"
    by (simp add: example_calls)
  from ok run have 3: "\<exists>ev \<in> set (calls_of fresh (Bootstrap env_ok node1 fresh)). is_RunCommand ev
         \<and> (\<exists>data r. yaml_Marshal env_ok (Bootstrap_initData env_ok node1) = Inr data
               \<and> ev = init_ev data r)"
    by (metis is_RunCommand.simps(1))
  from bad unmarshalled
  have 4: "snd (Bootstrap (env_ok\<lparr>yaml_Marshal := \<lambda>p. Inl (ErrorString ''cannot marshal'')\<rparr>)
            node1 fresh) = fresh"
    by blast
  from made 1 0 example_preseed(1,2) init 2 3 unmarshalled 4 show ?thesis by (intro conjI)
qed

subsection \<open>Join: no version precondition\<close>

text \<open>
  Claim C7.  Every run of \<open>Join\<close> and every run of \<open>Bootstrap\<close> is faithful.  Every
  \<open>UpdateCluster\<close> call that a run of \<open>Join\<close> makes passes the empty string as the version,
  whatever the token, and passes the configuration that decoding the token returned;
  \<open>Join\<close> never reads the cluster state.  When the trust steps succeed, \<open>UpdateCluster\<close>
  is applied with that configuration and the empty version to the world they left, and the
  rest of the run starts from the world that call left.  \<open>Bootstrap\<close> differs: the version
  of each of its \<open>UpdateCluster\<close> calls is the etag that a \<open>GetCluster\<close> call of the same
  run returned, and after a read that returned a state not enabled and an etag,
  \<open>UpdateCluster\<close> is applied with that etag to the world the read left.
\<close>

theorem Join_UpdateCluster_no_version:
  "faithful env st (Join env s token st)
   \<and> faithful env st' (Bootstrap env s st')
   \<and> (\<forall>c put v res.
        UpdateCluster_ev c put v res \<in> set (calls_of st (Join env s token st)) \<longrightarrow>
          v = '''' \<and> configFromToken_ev s token (Inr put) \<in> set (calls_of st (Join env s token st)))
   \<and> (\<forall>ev \<in> set (calls_of st (Join env s token st)). \<not> is_GetCluster ev)
   \<and> (\<forall>config serverCert w3 res w4.
        replay env
          [configFromToken_ev s token (Inr config), LoadServerCert_ev (dir s) (Inr serverCert),
           trust_ev serverCert config token None] (world st) = Some w3
        \<and> UpdateCluster env (client s) config '''' w3 = (res, w4) \<longrightarrow>
        (\<exists>rest. calls_of st (Join env s token st) =
            [configFromToken_ev s token (Inr config), LoadServerCert_ev (dir s) (Inr serverCert),
             trust_ev serverCert config token None,
             UpdateCluster_ev (client s) config '''' res] @ rest
           \<and> replay env rest w4 = Some (world (snd (Join env s token st)))))
   \<and> (\<forall>c put v res.
        UpdateCluster_ev c put v res \<in> set (calls_of st' (Bootstrap env s st')) \<longrightarrow>
          (\<exists>cl. GetCluster_ev c (Inr (cl, v)) \<in> set (calls_of st' (Bootstrap env s st'))))
   \<and> (\<forall>data cl etag w2 res w3.
        yaml_Marshal env (Bootstrap_initData env s) = Inr data
        \<and> Buffer_Write env data = None
        \<and> replay env [init_ev data None, GetCluster_ev (client s) (Inr (cl, etag))]
             (world st') = Some w2
        \<and> \<not> Enabled cl
        \<and> UpdateCluster env (client s) (enable_put (name s)) etag w2 = (res, w3) \<longrightarrow>
        (\<exists>rest. calls_of st' (Bootstrap env s st') =
            [init_ev data None, GetCluster_ev (client s) (Inr (cl, etag)),
             UpdateCluster_ev (client s) (enable_put (name s)) etag res] @ rest
           \<and> replay env rest w3 = Some (world (snd (Bootstrap env s st')))))"
proof -
  have 1: "\<forall>c put v res.
      UpdateCluster_ev c put v res \<in> set (calls_of st (Join env s token st)) \<longrightarrow>
        v = '''' \<and> configFromToken_ev s token (Inr put) \<in> set (calls_of st (Join env s token st))"
    using Join_shape [of st env s token]
    by (elim disjE exE conjE) simp_all
  have 2: "\<forall>ev \<in> set (calls_of st (Join env s token st)). \<not> is_GetCluster ev"
    using Join_shape [of st env s token]
    by (elim disjE exE conjE) simp_all
  have 3: "\<forall>config serverCert w3 res w4.
        replay env
          [configFromToken_ev s token (Inr config), LoadServerCert_ev (dir s) (Inr serverCert),
           trust_ev serverCert config token None] (world st) = Some w3
        \<and> UpdateCluster env (client s) config '''' w3 = (res, w4) \<longrightarrow>
        (\<exists>rest. calls_of st (Join env s token st) =
            [configFromToken_ev s token (Inr config), LoadServerCert_ev (dir s) (Inr serverCert),
             trust_ev serverCert config token None,
             UpdateCluster_ev (client s) config '''' res] @ rest
           \<and> replay env rest w4 = Some (world (snd (Join env s token st))))"
    using Join_after_trust [of env s token _ _ st] by blast
  have 4: "\<forall>c put v res.
        UpdateCluster_ev c put v res \<in> set (calls_of st' (Bootstrap env s st')) \<longrightarrow>
          (\<exists>cl. GetCluster_ev c (Inr (cl, v)) \<in> set (calls_of st' (Bootstrap env s st')))"
    using Bootstrap_shape [of env s st']
    by (elim disjE exE conjE) simp_all
  have 5: "\<forall>data cl etag w2 res w3.
        yaml_Marshal env (Bootstrap_initData env s) = Inr data
        \<and> Buffer_Write env data = None
        \<and> replay env [init_ev data None, GetCluster_ev (client s) (Inr (cl, etag))]
             (world st') = Some w2
        \<and> \<not> Enabled cl
        \<and> UpdateCluster env (client s) (enable_put (name s)) etag w2 = (res, w3) \<longrightarrow>
        (\<exists>rest. calls_of st' (Bootstrap env s st') =
            [init_ev data None, GetCluster_ev (client s) (Inr (cl, etag)),
             UpdateCluster_ev (client s) (enable_put (name s)) etag res] @ rest
           \<and> replay env rest w3 = Some (world (snd (Bootstrap env s st'))))"
    using Bootstrap_after_fetch [of env s _ _ _ st'] by blast
  from Join_faithful [of env st s token] Bootstrap_faithful [of env st' s] 1 2 3 4 5
  show ?thesis by (intro conjI)
qed

theorem Join_UpdateCluster_no_version_witness:
  "faithful env_ok fresh (Join env_ok node1 ''tok'' fresh)
   \<and> faithful env_ok fresh (Bootstrap env_ok node1 fresh)
   \<and> UpdateCluster_ev (InstanceServer 0) config1 '''' (Inr (Operation 1))
       \<in> set (calls_of fresh (Join env_ok node1 ''tok'' fresh))
   \<and> configFromToken_ev node1 ''tok'' (Inr config1)
       \<in> set (calls_of fresh (Join env_ok node1 ''tok'' fresh))
   \<and> filter is_GetCluster (calls_of fresh (Join env_ok node1 ''tok'' fresh)) = []
   \<and> replay env_ok trusted (world fresh) = Some 0
   \<and> UpdateCluster env_ok (client node1) config1 '''' 0 = (Inr (Operation 1), Suc 0)
   \<and> (\<exists>rest. calls_of fresh (Join env_ok node1 ''tok'' fresh) =
          trusted @ [UpdateCluster_ev (client node1) config1 '''' (Inr (Operation 1))] @ rest
        \<and> replay env_ok rest (Suc 0) = Some (world (snd (Join env_ok node1 ''tok'' fresh))))
   \<and> UpdateCluster_ev (InstanceServer 0) (enable_put ''node1'') ''etag-1'' (Inr (Operation 1))
       \<in> set (calls_of fresh (Bootstrap env_ok node1 fresh))
   \<and> (\<exists>cl. GetCluster_ev (InstanceServer 0) (Inr (cl, ''etag-1''))
         \<in> set (calls_of fresh (Bootstrap env_ok node1 fresh)))
   \<and> replay env_ok [init_ev ''preseed'' None, read_open] (world fresh) = Some 0
   \<and> UpdateCluster env_ok (client node1) (enable_put (name node1)) ''etag-1'' 0 =
       (Inr (Operation 1), Suc 0)
   \<and> (\<exists>rest. calls_of fresh (Bootstrap env_ok node1 fresh) =
          [init_ev ''preseed'' None, read_open,
           UpdateCluster_ev (client node1) (enable_put (name node1)) ''etag-1''
             (Inr (Operation 1))] @ rest
        \<and> replay env_ok rest (Suc 0) = Some (world (snd (Bootstrap env_ok node1 fresh))))"
proof -
  note inst = Join_UpdateCluster_no_version [of env_ok fresh node1 "''tok''" fresh]
  have joined: "UpdateCluster_ev (InstanceServer 0) config1 '''' (Inr (Operation 1))
       \<in> set (calls_of fresh (Join env_ok node1 ''tok'' fresh))"
    by (simp add: example_calls)
  have enabled: "UpdateCluster_ev (InstanceServer 0) (enable_put ''node1'') ''etag-1''
       (Inr (Operation 1)) \<in> set (calls_of fresh (Bootstrap env_ok node1 fresh))"
    by (simp add: example_calls)
  have trust: "replay env_ok
      [configFromToken_ev node1 ''tok'' (Inr config1),
       LoadServerCert_ev (dir node1) (Inr (CertInfo ''server.crt'')),
       trust_ev (CertInfo ''server.crt'') config1 ''tok'' None] (world fresh) = Some 0"
    using example_replays(1) by (simp add: node1_fields example_worlds)
  have call: "UpdateCluster env_ok (client node1) config1 '''' 0 = (Inr (Operation 1), Suc 0)"
    by (simp add: example_calls_made node1_fields)
  have read: "replay env_ok
      [init_ev ''preseed'' None,
       GetCluster_ev (client node1) (Inr (\<lparr>ServerName = '''', Enabled = False\<rparr>, ''etag-1''))]
      (world fresh) = Some 0"
    using example_replays(5) by (simp add: node1_fields example_worlds)
  have open_node: "\<not> Enabled \<lparr>ServerName = '''', Enabled = False\<rparr>"
    by simp
  have call': "UpdateCluster env_ok (client node1) (enable_put (name node1)) ''etag-1'' 0 =
       (Inr (Operation 1), Suc 0)"
    by (simp add: example_calls_made node1_fields)
  from inst have fj: "faithful env_ok fresh (Join env_ok node1 ''tok'' fresh)"
    and fb: "faithful env_ok fresh (Bootstrap env_ok node1 fresh)"
    by blast+
  from inst joined have 1: "configFromToken_ev node1 ''tok'' (Inr config1)
       \<in> set (calls_of fresh (Join env_ok node1 ''tok'' fresh))"
    by blast
  from inst have "\<forall>ev \<in> set (calls_of fresh (Join env_ok node1 ''tok'' fresh)). \<not> is_GetCluster ev"
    by blast
  then have 2: "filter is_GetCluster (calls_of fresh (Join env_ok node1 ''tok'' fresh)) = []"
    by (simp add: filter_empty_conv)
  from inst trust call have "\<exists>rest. calls_of fresh (Join env_ok node1 ''tok'' fresh) =
          [configFromToken_ev node1 ''tok'' (Inr config1),
           LoadServerCert_ev (dir node1) (Inr (CertInfo ''server.crt'')),
           trust_ev (CertInfo ''server.crt'') config1 ''tok'' None,
           UpdateCluster_ev (client node1) config1 '''' (Inr (Operation 1))] @ rest
        \<and> replay env_ok rest (Suc 0) = Some (world (snd (Join env_ok node1 ''tok'' fresh)))"
    by blast
  then have 3: "\<exists>rest. calls_of fresh (Join env_ok node1 ''tok'' fresh) =
          trusted @ [UpdateCluster_ev (client node1) config1 '''' (Inr (Operation 1))] @ rest
        \<and> replay env_ok rest (Suc 0) = Some (world (snd (Join env_ok node1 ''tok'' fresh)))"
    by (simp add: node1_fields)
  from inst enabled
  have 4: "\<exists>cl. GetCluster_ev (InstanceServer 0) (Inr (cl, ''etag-1''))
         \<in> set (calls_of fresh (Bootstrap env_ok node1 fresh))"
    by blast
  from inst example_preseed(1,2) read open_node call'
  have "\<exists>rest. calls_of fresh (Bootstrap env_ok node1 fresh) =
          [init_ev ''preseed'' None,
           GetCluster_ev (client node1) (Inr (\<lparr>ServerName = '''', Enabled = False\<rparr>, ''etag-1'')),
           UpdateCluster_ev (client node1) (enable_put (name node1)) ''etag-1''
             (Inr (Operation 1))] @ rest
        \<and> replay env_ok rest (Suc 0) = Some (world (snd (Bootstrap env_ok node1 fresh)))"
    by blast
  then have 5: "\<exists>rest. calls_of fresh (Bootstrap env_ok node1 fresh) =
          [init_ev ''preseed'' None, read_open,
           UpdateCluster_ev (client node1) (enable_put (name node1)) ''etag-1''
             (Inr (Operation 1))] @ rest
        \<and> replay env_ok rest (Suc 0) = Some (world (snd (Bootstrap env_ok node1 fresh)))"
    by (simp add: node1_fields)
  from trust have 6: "replay env_ok trusted (world fresh) = Some 0"
    by (simp add: node1_fields)
  from read have 7: "replay env_ok [init_ev ''preseed'' None, read_open] (world fresh) = Some 0"
    by (simp add: node1_fields)
  from fj fb joined 1 2 6 call 3 enabled 4 7 call' 5 show ?thesis by (intro conjI)
qed

subsection \<open>IssueToken: the client's error reaches the caller\<close>

text \<open>
  Claim C8.  When \<open>CreateClusterMember\<close> fails, for instance with a conflict because the
  peer name is taken, \<open>IssueToken\<close> returns the very error the client returned, neither
  replaced nor wrapped, and makes no further call.
\<close>

theorem IssueToken_returns_client_error:
  assumes "CreateClusterMember env (client s) \<lparr>member_ServerName = peer\<rparr> (world st) = (Inl e, w)"
  shows "fst (IssueToken env s peer st) = Inl e
         \<and> calls_of st (IssueToken env s peer st) =
             [CreateClusterMember_ev (client s) \<lparr>member_ServerName = peer\<rparr> (Inl e)]"
  using assms by (simp add: IssueToken_def perform_def calls_of_def)

theorem IssueToken_returns_client_error_witness:
  "CreateClusterMember env_conflict (client node1) \<lparr>member_ServerName = ''node2''\<rparr> (world fresh) =
     (Inl (ErrorString ''Conflict''), 0)
   \<and> fst (IssueToken env_conflict node1 ''node2'' fresh) = Inl (ErrorString ''Conflict'')
   \<and> calls_of fresh (IssueToken env_conflict node1 ''node2'' fresh) =
       [CreateClusterMember_ev (client node1) \<lparr>member_ServerName = ''node2''\<rparr>
          (Inl (ErrorString ''Conflict''))]"
proof -
  have refused:
    "CreateClusterMember env_conflict (client node1) \<lparr>member_ServerName = ''node2''\<rparr> (world fresh) =
       (Inl (ErrorString ''Conflict''), 0)"
    by (simp add: env_conflict_def env_ok_def fresh_def)
  from IssueToken_returns_client_error [OF refused] refused show ?thesis by blast
qed

subsection \<open>The accessors\<close>

text \<open>
  Claim C10.  For a service that \<open>NewLXDService\<close> returned, \<open>Port\<close> is the package
  constant \<open>LXDPort\<close> whatever the arguments of the constructor were, and \<open>Name\<close> and
  \<open>Address\<close> are the name and the address given to the constructor.  \<open>Bootstrap\<close>,
  \<open>Join\<close> and \<open>IssueToken\<close> have value receivers and assign to no field: they take
  the service and return none, so the service a caller holds after them is the one the
  constructor returned, and the accessors read nothing else.
\<close>

theorem NewLXDService_accessors:
  assumes "fst (NewLXDService env nm addr d st0) = Inr s"
  shows "Port s = LXDPort env \<and> Name s = nm \<and> Address s = addr"
  using NewLXDService_fields [OF assms] by (simp add: Port_def Name_def Address_def)

theorem NewLXDService_accessors_witness:
  "fst (NewLXDService env_ok ''node1'' ''10.0.0.5'' ''/var/lib/lxd'' fresh) = Inr node1
   \<and> Port node1 = LXDPort env_ok \<and> Name node1 = ''node1'' \<and> Address node1 = ''10.0.0.5''"
  using NewLXDService_accessors [OF NewLXDService_ok_run] NewLXDService_ok_run by blast

subsection \<open>IssueToken: the operation is read, not awaited\<close>

text \<open>
  Claim C3 says that \<open>IssueToken\<close> awaits the operation that \<open>CreateClusterMember\<close>
  returned before it converts it.  The source calls \<open>op.Get()\<close> and never \<open>op.Wait()\<close>.
  In the run below a token is returned; the log holds the creation and the read of the
  operation, and no wait; and the world is the one the read left.
\<close>

theorem IssueToken_does_not_wait_counterexample:
  "IssueToken env_ok node1 ''node2'' fresh =
     (Inr ''join token'',
      state_after fresh 0
        [CreateClusterMember_ev (InstanceServer 0) \<lparr>member_ServerName = ''node2''\<rparr>
           (Inr (Operation 2)),
         Get_ev (Operation 2) (api_Operation ''token operation'')])
   \<and> filter is_Wait (calls_of fresh (IssueToken env_ok node1 ''node2'' fresh)) = []
   \<and> faithful env_ok fresh (IssueToken env_ok node1 ''node2'' fresh)"
proof -
  have quiet: "filter is_Wait (calls_of fresh (IssueToken env_ok node1 ''node2'' fresh)) = []"
    by (simp add: example_calls)
  from IssueToken_ok_run quiet IssueToken_faithful [of env_ok fresh node1 "''node2''"]
  show ?thesis by (intro conjI)
qed

subsection \<open>IssueToken: what it does instead\<close>

text \<open>
  Claim C3, amended.  Every run of \<open>IssueToken\<close> is faithful: its log holds exactly the
  calls it made.  The first call of every run is \<open>CreateClusterMember\<close> with the given peer
  as server name; no run waits for an operation; and a run that returns a token consists of
  that call, which returned an operation, and one read of that operation with \<open>Get\<close>, and
  the token is the string of the join token that the operation read converts to.  When
  \<open>CreateClusterMember\<close>, applied to the world the run started in, returns an operation,
  \<open>Get\<close> is applied to that operation on the world the creation left; \<open>IssueToken\<close>
  returns the conversion of what \<open>Get\<close> returned (the string of the join token, or the
  wrapped error of the conversion) and leaves the world that \<open>Get\<close> left, with these two
  calls in the log and no other.
\<close>

theorem IssueToken_reads_operation:
  "faithful env st (IssueToken env s peer st)
   \<and> (\<exists>res rest. calls_of st (IssueToken env s peer st) =
         CreateClusterMember_ev (client s) \<lparr>member_ServerName = peer\<rparr> res # rest)
   \<and> (\<forall>ev \<in> set (calls_of st (IssueToken env s peer st)). \<not> is_Wait ev)
   \<and> (\<forall>tok. fst (IssueToken env s peer st) = Inr tok \<longrightarrow>
        (\<exists>op opAPI joinToken.
           calls_of st (IssueToken env s peer st) =
             [CreateClusterMember_ev (client s) \<lparr>member_ServerName = peer\<rparr> (Inr op),
              Get_ev op opAPI]
           \<and> ToClusterJoinToken env opAPI = Inr joinToken
           \<and> tok = JoinToken_String env joinToken))
   \<and> (\<forall>op w1 opAPI w2.
        CreateClusterMember env (client s) \<lparr>member_ServerName = peer\<rparr> (world st) = (Inr op, w1)
        \<and> Operation_Get env op w1 = (opAPI, w2) \<longrightarrow>
        IssueToken env s peer st =
          ((case ToClusterJoinToken env opAPI of
              Inl e \<Rightarrow> Inl (WrapError ''Failed converting token operation to join token: '' e)
            | Inr joinToken \<Rightarrow> Inr (JoinToken_String env joinToken)),
           state_after st w2
             [CreateClusterMember_ev (client s) \<lparr>member_ServerName = peer\<rparr> (Inr op),
              Get_ev op opAPI]))"
proof -
  have 1: "\<exists>res rest. calls_of st (IssueToken env s peer st) =
         CreateClusterMember_ev (client s) \<lparr>member_ServerName = peer\<rparr> res # rest"
    using IssueToken_shape [of st env s peer]
    by (elim disjE exE conjE) simp_all
  have 2: "\<forall>ev \<in> set (calls_of st (IssueToken env s peer st)). \<not> is_Wait ev"
    using IssueToken_shape [of st env s peer]
    by (elim disjE exE conjE) simp_all
  have 3: "\<forall>tok. fst (IssueToken env s peer st) = Inr tok \<longrightarrow>
        (\<exists>op opAPI joinToken.
           calls_of st (IssueToken env s peer st) =
             [CreateClusterMember_ev (client s) \<lparr>member_ServerName = peer\<rparr> (Inr op),
              Get_ev op opAPI]
           \<and> ToClusterJoinToken env opAPI = Inr joinToken
           \<and> tok = JoinToken_String env joinToken)"
    using IssueToken_shape [of st env s peer]
    by (elim disjE exE conjE) simp_all
  have 4: "\<forall>op w1 opAPI w2.
        CreateClusterMember env (client s) \<lparr>member_ServerName = peer\<rparr> (world st) = (Inr op, w1)
        \<and> Operation_Get env op w1 = (opAPI, w2) \<longrightarrow>
        IssueToken env s peer st =
          ((case ToClusterJoinToken env opAPI of
              Inl e \<Rightarrow> Inl (WrapError ''Failed converting token operation to join token: '' e)
            | Inr joinToken \<Rightarrow> Inr (JoinToken_String env joinToken)),
           state_after st w2
             [CreateClusterMember_ev (client s) \<lparr>member_ServerName = peer\<rparr> (Inr op),
              Get_ev op opAPI])"
    using IssueToken_after_create [of env s peer st] by blast
  from IssueToken_faithful [of env st s peer] 1 2 3 4 show ?thesis by (intro conjI)
qed

theorem IssueToken_reads_operation_witness:
  "faithful env_ok fresh (IssueToken env_ok node1 ''node2'' fresh)
   \<and> fst (IssueToken env_ok node1 ''node2'' fresh) = Inr ''join token''
   \<and> (\<exists>op opAPI joinToken.
         calls_of fresh (IssueToken env_ok node1 ''node2'' fresh) =
           [CreateClusterMember_ev (client node1) \<lparr>member_ServerName = ''node2''\<rparr> (Inr op),
            Get_ev op opAPI]
         \<and> ToClusterJoinToken env_ok opAPI = Inr joinToken
         \<and> ''join token'' = JoinToken_String env_ok joinToken)
   \<and> filter is_Wait (calls_of fresh (IssueToken env_ok node1 ''node2'' fresh)) = []
   \<and> CreateClusterMember env_ok (client node1) \<lparr>member_ServerName = ''node2''\<rparr> (world fresh) =
       (Inr (Operation 2), 0)
   \<and> Operation_Get env_ok (Operation 2) 0 = (api_Operation ''token operation'', 0)
   \<and> IssueToken env_ok node1 ''node2'' fresh =
       (Inr ''join token'',
        state_after fresh 0
          [CreateClusterMember_ev (client node1) \<lparr>member_ServerName = ''node2''\<rparr>
             (Inr (Operation 2)),
           Get_ev (Operation 2) (api_Operation ''token operation'')])"
proof -
  note inst = IssueToken_reads_operation [of env_ok fresh node1 "''node2''"]
  have issued: "fst (IssueToken env_ok node1 ''node2'' fresh) = Inr ''join token''"
    by (simp add: IssueToken_ok_run)
  have created:
    "CreateClusterMember env_ok (client node1) \<lparr>member_ServerName = ''node2''\<rparr> (world fresh) =
       (Inr (Operation 2), 0)"
    by (simp add: example_calls_made node1_fields example_worlds)
  have got: "Operation_Get env_ok (Operation 2) 0 = (api_Operation ''token operation'', 0)"
    by (simp add: example_calls_made)
  from inst have 0: "faithful env_ok fresh (IssueToken env_ok node1 ''node2'' fresh)"
    by blast
  from inst issued have 1: "\<exists>op opAPI joinToken.
         calls_of fresh (IssueToken env_ok node1 ''node2'' fresh) =
           [CreateClusterMember_ev (client node1) \<lparr>member_ServerName = ''node2''\<rparr> (Inr op),
            Get_ev op opAPI]
         \<and> ToClusterJoinToken env_ok opAPI = Inr joinToken
         \<and> ''join token'' = JoinToken_String env_ok joinToken"
    by blast
  from inst have "\<forall>ev \<in> set (calls_of fresh (IssueToken env_ok node1 ''node2'' fresh)). \<not> is_Wait ev"
    by blast
  then have 2: "filter is_Wait (calls_of fresh (IssueToken env_ok node1 ''node2'' fresh)) = []"
    by (simp add: filter_empty_conv)
  from inst created got
  have "IssueToken env_ok node1 ''node2'' fresh =
       ((case ToClusterJoinToken env_ok (api_Operation ''token operation'') of
           Inl e \<Rightarrow> Inl (WrapError ''Failed converting token operation to join token: '' e)
         | Inr joinToken \<Rightarrow> Inr (JoinToken_String env_ok joinToken)),
        state_after fresh 0
          [CreateClusterMember_ev (client node1) \<lparr>member_ServerName = ''node2''\<rparr>
             (Inr (Operation 2)),
           Get_ev (Operation 2) (api_Operation ''token operation'')])"
    by blast
  then have 3: "IssueToken env_ok node1 ''node2'' fresh =
       (Inr ''join token'',
        state_after fresh 0
          [CreateClusterMember_ev (client node1) \<lparr>member_ServerName = ''node2''\<rparr>
             (Inr (Operation 2)),
           Get_ev (Operation 2) (api_Operation ''token operation'')])"
    by (simp add: example_calls_made)
  from 0 issued 1 2 created got 3 show ?thesis by (intro conjI)
qed

subsection \<open>Errors: which ones carry a stage\<close>

text \<open>
  Claim C4 says that every failure is returned wrapped with the stage it occurred in, in
  particular a failure of \<open>CreateClusterMember\<close> in \<open>IssueToken\<close> and a failure to load
  the certificate in \<open>Join\<close>.  The source returns both with a bare \<open>return err\<close>.  In the
  runs below the error returned is the collaborator's own error, with nothing wrapped
  around it.
\<close>

theorem unwrapped_errors_counterexample:
  "IssueToken env_conflict node1 ''node2'' fresh =
     (Inl (ErrorString ''Conflict''),
      state_after fresh 0
        [CreateClusterMember_ev (InstanceServer 0) \<lparr>member_ServerName = ''node2''\<rparr>
           (Inl (ErrorString ''Conflict''))])
   \<and> Join env_no_cert node1 ''tok'' fresh =
     (Some (ErrorString ''no such file''),
      state_after fresh 0
        [configFromToken_ev node1 ''tok'' (Inr config1),
         LoadServerCert_ev ''/var/lib/lxd'' (Inl (ErrorString ''no such file''))])"
  by (simp add: IssueToken_conflict_run Join_no_cert_run)

subsection \<open>Errors: what is wrapped and what is not\<close>

text \<open>
  Claim C4, amended.  Every run of the three operations is faithful.  An error returned
  by \<open>Bootstrap\<close> is the already-clustered error, or the error of the failed step (encoding
  the preseed, buffering it, or the last call in the log) wrapped with the message of
  that step.  An error returned by \<open>Join\<close> is the error of the last call in the log:
  wrapped with a message when that call is \<open>SetupTrust\<close>, \<open>UpdateCluster\<close> or the wait, and
  unchanged when it is the decoding of the token or the loading of the certificate.  An
  error returned by \<open>IssueToken\<close> is the unchanged error of \<open>CreateClusterMember\<close>, or the
  error of the conversion to a join token wrapped with a message.  Conversely every failure
  is returned, and ends the run: when the steps before a call succeed and the call fails,
  each applied to the world the previous one left, the operation returns that call's
  error, wrapped or unchanged as said, and leaves the world of the failed call, with these
  calls in the log and no other.
\<close>

theorem errors_and_stages:
  "faithful env st (Bootstrap env s st)
   \<and> faithful env st (Join env s token st)
   \<and> faithful env st (IssueToken env s peer st)
   \<and> (\<forall>e. fst (Bootstrap env s st) = Some e \<longrightarrow>
      e = already_clustered
      \<or> (\<exists>cause. yaml_Marshal env (Bootstrap_initData env s) = Inl cause
            \<and> e = WrapError ''Failed to parse preseed configuration as yaml: '' cause)
      \<or> (\<exists>data cause. yaml_Marshal env (Bootstrap_initData env s) = Inr data
            \<and> Buffer_Write env data = Some cause
            \<and> e = WrapError ''Failed to write preseed configuration: '' cause)
      \<or> (\<exists>cause. calls_of st (Bootstrap env s st) \<noteq> []
            \<and> failure (last (calls_of st (Bootstrap env s st))) = Some cause
            \<and> e = WrapError (Bootstrap_stage (last (calls_of st (Bootstrap env s st)))) cause))
   \<and> (\<forall>e. fst (Join env s token st) = Some e \<longrightarrow>
        (\<exists>cause. calls_of st (Join env s token st) \<noteq> []
           \<and> failure (last (calls_of st (Join env s token st))) = Some cause
           \<and> e = (case Join_stage (last (calls_of st (Join env s token st))) of
                     None \<Rightarrow> cause
                   | Some stage \<Rightarrow> WrapError stage cause)))
   \<and> (\<forall>e. fst (IssueToken env s peer st) = Inl e \<longrightarrow>
        calls_of st (IssueToken env s peer st) =
          [CreateClusterMember_ev (client s) \<lparr>member_ServerName = peer\<rparr> (Inl e)]
        \<or> (\<exists>op opAPI cause.
              calls_of st (IssueToken env s peer st) =
                [CreateClusterMember_ev (client s) \<lparr>member_ServerName = peer\<rparr> (Inr op),
                 Get_ev op opAPI]
              \<and> ToClusterJoinToken env opAPI = Inl cause
              \<and> e = WrapError ''Failed converting token operation to join token: '' cause))
   \<and> (\<forall>cause. yaml_Marshal env (Bootstrap_initData env s) = Inl cause \<longrightarrow>
        Bootstrap env s st =
          (Some (WrapError ''Failed to parse preseed configuration as yaml: '' cause), st))
   \<and> (\<forall>data cause. yaml_Marshal env (Bootstrap_initData env s) = Inr data
        \<and> Buffer_Write env data = Some cause \<longrightarrow>
        Bootstrap env s st =
          (Some (WrapError ''Failed to write preseed configuration: '' cause), st))
   \<and> (\<forall>data cl etag op cause L w.
        yaml_Marshal env (Bootstrap_initData env s) = Inr data
        \<and> Buffer_Write env data = None
        \<and> \<not> Enabled cl
        \<and> L \<in> set [[init_ev data (Some cause)],
                   [init_ev data None, GetCluster_ev (client s) (Inl cause)],
                   [init_ev data None, GetCluster_ev (client s) (Inr (cl, etag)),
                    UpdateCluster_ev (client s) (enable_put (name s)) etag (Inl cause)],
                   [init_ev data None, GetCluster_ev (client s) (Inr (cl, etag)),
                    UpdateCluster_ev (client s) (enable_put (name s)) etag (Inr op),
                    Wait_ev op (Some cause)]]
        \<and> replay env L (world st) = Some w \<longrightarrow>
        Bootstrap env s st =
          (Some (WrapError (Bootstrap_stage (last L)) cause), state_after st w L))
   \<and> (\<forall>config serverCert op cause L w.
        L \<in> set [[configFromToken_ev s token (Inl cause)],
                 [configFromToken_ev s token (Inr config), LoadServerCert_ev (dir s) (Inl cause)],
                 [configFromToken_ev s token (Inr config),
                  LoadServerCert_ev (dir s) (Inr serverCert),
                  trust_ev serverCert config token (Some cause)],
                 [configFromToken_ev s token (Inr config),
                  LoadServerCert_ev (dir s) (Inr serverCert),
                  trust_ev serverCert config token None,
                  UpdateCluster_ev (client s) config '''' (Inl cause)],
                 [configFromToken_ev s token (Inr config),
                  LoadServerCert_ev (dir s) (Inr serverCert),
                  trust_ev serverCert config token None,
                  UpdateCluster_ev (client s) config '''' (Inr op), Wait_ev op (Some cause)]]
        \<and> replay env L (world st) = Some w \<longrightarrow>
        Join env s token st =
          (Some (case Join_stage (last L) of None \<Rightarrow> cause
                 | Some stage \<Rightarrow> WrapError stage cause),
           state_after st w L))
   \<and> (\<forall>cause w.
        replay env [CreateClusterMember_ev (client s) \<lparr>member_ServerName = peer\<rparr> (Inl cause)]
          (world st) = Some w \<longrightarrow>
        IssueToken env s peer st =
          (Inl cause,
           state_after st w
             [CreateClusterMember_ev (client s) \<lparr>member_ServerName = peer\<rparr> (Inl cause)]))
   \<and> (\<forall>op opAPI cause w.
        replay env
          [CreateClusterMember_ev (client s) \<lparr>member_ServerName = peer\<rparr> (Inr op),
           Get_ev op opAPI] (world st) = Some w
        \<and> ToClusterJoinToken env opAPI = Inl cause \<longrightarrow>
        IssueToken env s peer st =
          (Inl (WrapError ''Failed converting token operation to join token: '' cause),
           state_after st w
             [CreateClusterMember_ev (client s) \<lparr>member_ServerName = peer\<rparr> (Inr op),
              Get_ev op opAPI]))"
proof -
  have 1: "\<forall>e. fst (Bootstrap env s st) = Some e \<longrightarrow>
      e = already_clustered
      \<or> (\<exists>cause. yaml_Marshal env (Bootstrap_initData env s) = Inl cause
            \<and> e = WrapError ''Failed to parse preseed configuration as yaml: '' cause)
      \<or> (\<exists>data cause. yaml_Marshal env (Bootstrap_initData env s) = Inr data
            \<and> Buffer_Write env data = Some cause
            \<and> e = WrapError ''Failed to write preseed configuration: '' cause)
      \<or> (\<exists>cause. calls_of st (Bootstrap env s st) \<noteq> []
            \<and> failure (last (calls_of st (Bootstrap env s st))) = Some cause
            \<and> e = WrapError (Bootstrap_stage (last (calls_of st (Bootstrap env s st)))) cause)"
    using Bootstrap_shape [of env s st]
    by (elim disjE exE conjE) simp_all
  have 2: "\<forall>e. fst (Join env s token st) = Some e \<longrightarrow>
        (\<exists>cause. calls_of st (Join env s token st) \<noteq> []
           \<and> failure (last (calls_of st (Join env s token st))) = Some cause
           \<and> e = (case Join_stage (last (calls_of st (Join env s token st))) of
                     None \<Rightarrow> cause
                   | Some stage \<Rightarrow> WrapError stage cause))"
    using Join_shape [of st env s token]
    by (elim disjE exE conjE) simp_all
  have 3: "\<forall>e. fst (IssueToken env s peer st) = Inl e \<longrightarrow>
        calls_of st (IssueToken env s peer st) =
          [CreateClusterMember_ev (client s) \<lparr>member_ServerName = peer\<rparr> (Inl e)]
        \<or> (\<exists>op opAPI cause.
              calls_of st (IssueToken env s peer st) =
                [CreateClusterMember_ev (client s) \<lparr>member_ServerName = peer\<rparr> (Inr op),
                 Get_ev op opAPI]
              \<and> ToClusterJoinToken env opAPI = Inl cause
              \<and> e = WrapError ''Failed converting token operation to join token: '' cause)"
    using IssueToken_shape [of st env s peer]
    by (elim disjE exE conjE) simp_all
  have 4: "\<forall>cause. yaml_Marshal env (Bootstrap_initData env s) = Inl cause \<longrightarrow>
        Bootstrap env s st =
          (Some (WrapError ''Failed to parse preseed configuration as yaml: '' cause), st)"
    using Bootstrap_yaml_fails [of env s _ st] by blast
  have 5: "\<forall>data cause. yaml_Marshal env (Bootstrap_initData env s) = Inr data
        \<and> Buffer_Write env data = Some cause \<longrightarrow>
        Bootstrap env s st =
          (Some (WrapError ''Failed to write preseed configuration: '' cause), st)"
    using Bootstrap_buffer_fails [of env s _ _ st] by blast
  have 6: "\<forall>data cl etag op cause L w.
        yaml_Marshal env (Bootstrap_initData env s) = Inr data
        \<and> Buffer_Write env data = None
        \<and> \<not> Enabled cl
        \<and> L \<in> set [[init_ev data (Some cause)],
                   [init_ev data None, GetCluster_ev (client s) (Inl cause)],
                   [init_ev data None, GetCluster_ev (client s) (Inr (cl, etag)),
                    UpdateCluster_ev (client s) (enable_put (name s)) etag (Inl cause)],
                   [init_ev data None, GetCluster_ev (client s) (Inr (cl, etag)),
                    UpdateCluster_ev (client s) (enable_put (name s)) etag (Inr op),
                    Wait_ev op (Some cause)]]
        \<and> replay env L (world st) = Some w \<longrightarrow>
        Bootstrap env s st =
          (Some (WrapError (Bootstrap_stage (last L)) cause), state_after st w L)"
    by (auto simp del: replay.simps
        intro: Bootstrap_init_fails Bootstrap_fetch_fails Bootstrap_update_fails
          Bootstrap_wait_fails)
  have 7: "\<forall>config serverCert op cause L w.
        L \<in> set [[configFromToken_ev s token (Inl cause)],
                 [configFromToken_ev s token (Inr config), LoadServerCert_ev (dir s) (Inl cause)],
                 [configFromToken_ev s token (Inr config),
                  LoadServerCert_ev (dir s) (Inr serverCert),
                  trust_ev serverCert config token (Some cause)],
                 [configFromToken_ev s token (Inr config),
                  LoadServerCert_ev (dir s) (Inr serverCert),
                  trust_ev serverCert config token None,
                  UpdateCluster_ev (client s) config '''' (Inl cause)],
                 [configFromToken_ev s token (Inr config),
                  LoadServerCert_ev (dir s) (Inr serverCert),
                  trust_ev serverCert config token None,
                  UpdateCluster_ev (client s) config '''' (Inr op), Wait_ev op (Some cause)]]
        \<and> replay env L (world st) = Some w \<longrightarrow>
        Join env s token st =
          (Some (case Join_stage (last L) of None \<Rightarrow> cause
                 | Some stage \<Rightarrow> WrapError stage cause),
           state_after st w L)"
    by (auto simp del: replay.simps
        intro: Join_decode_fails Join_cert_fails Join_trust_fails Join_update_fails
          Join_wait_fails)
  have 8: "\<forall>cause w.
        replay env [CreateClusterMember_ev (client s) \<lparr>member_ServerName = peer\<rparr> (Inl cause)]
          (world st) = Some w \<longrightarrow>
        IssueToken env s peer st =
          (Inl cause,
           state_after st w
             [CreateClusterMember_ev (client s) \<lparr>member_ServerName = peer\<rparr> (Inl cause)])"
    using IssueToken_create_fails [of env s peer _ st] by blast
  have 9: "\<forall>op opAPI cause w.
        replay env
          [CreateClusterMember_ev (client s) \<lparr>member_ServerName = peer\<rparr> (Inr op),
           Get_ev op opAPI] (world st) = Some w
        \<and> ToClusterJoinToken env opAPI = Inl cause \<longrightarrow>
        IssueToken env s peer st =
          (Inl (WrapError ''Failed converting token operation to join token: '' cause),
           state_after st w
             [CreateClusterMember_ev (client s) \<lparr>member_ServerName = peer\<rparr> (Inr op),
              Get_ev op opAPI])"
    using IssueToken_reads [of env s peer _ _ st] by auto
  from Bootstrap_faithful [of env st s] Join_faithful [of env st s token]
    IssueToken_faithful [of env st s peer] 1 2 3 4 5 6 7 8 9
  show ?thesis by (intro conjI)
qed

theorem errors_and_stages_witness:
  "faithful env_init_fails fresh (Bootstrap env_init_fails node1 fresh)
   \<and> faithful env_stale fresh (Join env_stale node1 ''tok'' fresh)
   \<and> faithful env_bad_operation fresh (IssueToken env_bad_operation node1 ''node2'' fresh)
   \<and> replay env_init_fails [init_ev ''preseed'' (Some (ErrorString ''exit status 1''))]
        (world fresh) = Some 0
   \<and> Bootstrap env_init_fails node1 fresh =
       (Some (WrapError ''Failed to initialize LXD: '' (ErrorString ''exit status 1'')),
        state_after fresh 0 [init_ev ''preseed'' (Some (ErrorString ''exit status 1''))])
   \<and> replay env_no_cert
        [configFromToken_ev node1 ''tok'' (Inr config1),
         LoadServerCert_ev ''/var/lib/lxd'' (Inl (ErrorString ''no such file''))]
        (world fresh) = Some 0
   \<and> Join env_no_cert node1 ''tok'' fresh =
       (Some (ErrorString ''no such file''),
        state_after fresh 0
          [configFromToken_ev node1 ''tok'' (Inr config1),
           LoadServerCert_ev ''/var/lib/lxd'' (Inl (ErrorString ''no such file''))])
   \<and> replay env_stale
        (trusted @ [UpdateCluster_ev (InstanceServer 0) config1 ''''
                      (Inl (ErrorString ''precondition failed''))]) (world fresh) = Some 0
   \<and> Join env_stale node1 ''tok'' fresh =
       (Some (WrapError ''Failed to join cluster: '' (ErrorString ''precondition failed'')),
        state_after fresh 0
          (trusted @ [UpdateCluster_ev (InstanceServer 0) config1 ''''
                        (Inl (ErrorString ''precondition failed''))]))
   \<and> (\<exists>cause. calls_of fresh (Join env_stale node1 ''tok'' fresh) \<noteq> []
         \<and> failure (last (calls_of fresh (Join env_stale node1 ''tok'' fresh))) = Some cause
         \<and> WrapError ''Failed to join cluster: '' (ErrorString ''precondition failed'') =
             (case Join_stage (last (calls_of fresh (Join env_stale node1 ''tok'' fresh))) of
                None \<Rightarrow> cause
              | Some stage \<Rightarrow> WrapError stage cause))
   \<and> replay env_conflict
        [CreateClusterMember_ev (InstanceServer 0) \<lparr>member_ServerName = ''node2''\<rparr>
           (Inl (ErrorString ''Conflict''))] (world fresh) = Some 0
   \<and> IssueToken env_conflict node1 ''node2'' fresh =
       (Inl (ErrorString ''Conflict''),
        state_after fresh 0
          [CreateClusterMember_ev (InstanceServer 0) \<lparr>member_ServerName = ''node2''\<rparr>
             (Inl (ErrorString ''Conflict''))])
   \<and> replay env_bad_operation
        [CreateClusterMember_ev (InstanceServer 0) \<lparr>member_ServerName = ''node2''\<rparr>
           (Inr (Operation 2)),
         Get_ev (Operation 2) (api_Operation ''token operation'')] (world fresh) = Some 0
   \<and> ToClusterJoinToken env_bad_operation (api_Operation ''token operation'') =
       Inl (ErrorString ''not a token operation'')
   \<and> IssueToken env_bad_operation node1 ''node2'' fresh =
       (Inl (WrapError ''Failed converting token operation to join token: ''
               (ErrorString ''not a token operation'')),
        state_after fresh 0
          [CreateClusterMember_ev (InstanceServer 0) \<lparr>member_ServerName = ''node2''\<rparr>
             (Inr (Operation 2)),
           Get_ev (Operation 2) (api_Operation ''token operation'')])"
proof -
  note init = errors_and_stages [where env = env_init_fails and s = node1 and st = fresh
      and token = "''tok''" and peer = "''node2''"]
  note cert = errors_and_stages [where env = env_no_cert and s = node1 and st = fresh
      and token = "''tok''" and peer = "''node2''"]
  note stale = errors_and_stages [where env = env_stale and s = node1 and st = fresh
      and token = "''tok''" and peer = "''node2''"]
  note conflict = errors_and_stages [where env = env_conflict and s = node1 and st = fresh
      and token = "''tok''" and peer = "''node2''"]
  note convert = errors_and_stages [where env = env_bad_operation and s = node1 and st = fresh
      and token = "''tok''" and peer = "''node2''"]
  let ?no_init = "[init_ev ''preseed'' (Some (ErrorString ''exit status 1''))]"
  let ?no_cert = "[configFromToken_ev node1 ''tok'' (Inr config1),
         LoadServerCert_ev (dir node1) (Inl (ErrorString ''no such file''))]"
  let ?no_update = "[configFromToken_ev node1 ''tok'' (Inr config1),
         LoadServerCert_ev (dir node1) (Inr (CertInfo ''server.crt'')),
         trust_ev (CertInfo ''server.crt'') config1 ''tok'' None,
         UpdateCluster_ev (client node1) config1 '''' (Inl (ErrorString ''precondition failed''))]"
  have open_node: "\<not> Enabled \<lparr>ServerName = '''', Enabled = False\<rparr>"
    by simp
  have r1: "replay env_init_fails ?no_init (world fresh) = Some 0"
    using example_replays(8) by (simp add: example_worlds)
  have m1: "?no_init \<in> set
      [[init_ev ''preseed'' (Some (ErrorString ''exit status 1''))],
       [init_ev ''preseed'' None, GetCluster_ev (client node1) (Inl (ErrorString ''exit status 1''))],
       [init_ev ''preseed'' None,
        GetCluster_ev (client node1) (Inr (\<lparr>ServerName = '''', Enabled = False\<rparr>, '''')),
        UpdateCluster_ev (client node1) (enable_put (name node1)) ''''
          (Inl (ErrorString ''exit status 1''))],
       [init_ev ''preseed'' None,
        GetCluster_ev (client node1) (Inr (\<lparr>ServerName = '''', Enabled = False\<rparr>, '''')),
        UpdateCluster_ev (client node1) (enable_put (name node1)) '''' (Inr (Operation 1)),
        Wait_ev (Operation 1) (Some (ErrorString ''exit status 1''))]]"
    by simp
  from init example_preseed(3,4) open_node m1 r1
  have "Bootstrap env_init_fails node1 fresh =
       (Some (WrapError (Bootstrap_stage (last ?no_init)) (ErrorString ''exit status 1'')),
        state_after fresh 0 ?no_init)"
    by blast
  then have 1: "Bootstrap env_init_fails node1 fresh =
       (Some (WrapError ''Failed to initialize LXD: '' (ErrorString ''exit status 1'')),
        state_after fresh 0 [init_ev ''preseed'' (Some (ErrorString ''exit status 1''))])"
    by simp
  have r2: "replay env_no_cert ?no_cert (world fresh) = Some 0"
    using example_replays(3) by (simp add: example_worlds node1_fields)
  have m2: "?no_cert \<in> set
      [[configFromToken_ev node1 ''tok'' (Inl (ErrorString ''no such file''))],
       [configFromToken_ev node1 ''tok'' (Inr config1),
        LoadServerCert_ev (dir node1) (Inl (ErrorString ''no such file''))],
       [configFromToken_ev node1 ''tok'' (Inr config1),
        LoadServerCert_ev (dir node1) (Inr (CertInfo ''server.crt'')),
        trust_ev (CertInfo ''server.crt'') config1 ''tok'' (Some (ErrorString ''no such file''))],
       [configFromToken_ev node1 ''tok'' (Inr config1),
        LoadServerCert_ev (dir node1) (Inr (CertInfo ''server.crt'')),
        trust_ev (CertInfo ''server.crt'') config1 ''tok'' None,
        UpdateCluster_ev (client node1) config1 '''' (Inl (ErrorString ''no such file''))],
       [configFromToken_ev node1 ''tok'' (Inr config1),
        LoadServerCert_ev (dir node1) (Inr (CertInfo ''server.crt'')),
        trust_ev (CertInfo ''server.crt'') config1 ''tok'' None,
        UpdateCluster_ev (client node1) config1 '''' (Inr (Operation 1)),
        Wait_ev (Operation 1) (Some (ErrorString ''no such file''))]]"
    by simp
  from cert m2 r2
  have "Join env_no_cert node1 ''tok'' fresh =
       (Some (case Join_stage (last ?no_cert) of None \<Rightarrow> ErrorString ''no such file''
              | Some stage \<Rightarrow> WrapError stage (ErrorString ''no such file'')),
        state_after fresh 0 ?no_cert)"
    by blast
  then have 2: "Join env_no_cert node1 ''tok'' fresh =
       (Some (ErrorString ''no such file''),
        state_after fresh 0
          [configFromToken_ev node1 ''tok'' (Inr config1),
           LoadServerCert_ev ''/var/lib/lxd'' (Inl (ErrorString ''no such file''))])"
    by (simp add: node1_fields)
  have r3: "replay env_stale ?no_update (world fresh) = Some 0"
    using example_replays(4) by (simp add: example_worlds node1_fields)
  have m3: "?no_update \<in> set
      [[configFromToken_ev node1 ''tok'' (Inl (ErrorString ''precondition failed''))],
       [configFromToken_ev node1 ''tok'' (Inr config1),
        LoadServerCert_ev (dir node1) (Inl (ErrorString ''precondition failed''))],
       [configFromToken_ev node1 ''tok'' (Inr config1),
        LoadServerCert_ev (dir node1) (Inr (CertInfo ''server.crt'')),
        trust_ev (CertInfo ''server.crt'') config1 ''tok''
          (Some (ErrorString ''precondition failed''))],
       [configFromToken_ev node1 ''tok'' (Inr config1),
        LoadServerCert_ev (dir node1) (Inr (CertInfo ''server.crt'')),
        trust_ev (CertInfo ''server.crt'') config1 ''tok'' None,
        UpdateCluster_ev (client node1) config1 '''' (Inl (ErrorString ''precondition failed''))],
       [configFromToken_ev node1 ''tok'' (Inr config1),
        LoadServerCert_ev (dir node1) (Inr (CertInfo ''server.crt'')),
        trust_ev (CertInfo ''server.crt'') config1 ''tok'' None,
        UpdateCluster_ev (client node1) config1 '''' (Inr (Operation 1)),
        Wait_ev (Operation 1) (Some (ErrorString ''precondition failed''))]]"
    by simp
  from stale m3 r3
  have "Join env_stale node1 ''tok'' fresh =
       (Some (case Join_stage (last ?no_update) of None \<Rightarrow> ErrorString ''precondition failed''
              | Some stage \<Rightarrow> WrapError stage (ErrorString ''precondition failed'')),
        state_after fresh 0 ?no_update)"
    by blast
  then have 3: "Join env_stale node1 ''tok'' fresh =
       (Some (WrapError ''Failed to join cluster: '' (ErrorString ''precondition failed'')),
        state_after fresh 0
          (trusted @ [UpdateCluster_ev (InstanceServer 0) config1 ''''
                        (Inl (ErrorString ''precondition failed''))]))"
    by (simp add: node1_fields)
  then have returned: "fst (Join env_stale node1 ''tok'' fresh) =
      Some (WrapError ''Failed to join cluster: '' (ErrorString ''precondition failed''))"
    by simp
  note bk = stale [THEN conjunct2, THEN conjunct2, THEN conjunct2, THEN conjunct2,
      THEN conjunct1, rule_format]
  have 4: "\<exists>cause. calls_of fresh (Join env_stale node1 ''tok'' fresh) \<noteq> []
         \<and> failure (last (calls_of fresh (Join env_stale node1 ''tok'' fresh))) = Some cause
         \<and> WrapError ''Failed to join cluster: '' (ErrorString ''precondition failed'') =
             (case Join_stage (last (calls_of fresh (Join env_stale node1 ''tok'' fresh))) of
                None \<Rightarrow> cause
              | Some stage \<Rightarrow> WrapError stage cause)"
    by (rule bk [OF returned])
  have r5: "replay env_conflict
        [CreateClusterMember_ev (client node1) \<lparr>member_ServerName = ''node2''\<rparr>
           (Inl (ErrorString ''Conflict''))] (world fresh) = Some 0"
    using example_replays(10) by (simp add: example_worlds node1_fields)
  from conflict r5
  have "IssueToken env_conflict node1 ''node2'' fresh =
       (Inl (ErrorString ''Conflict''),
        state_after fresh 0
          [CreateClusterMember_ev (client node1) \<lparr>member_ServerName = ''node2''\<rparr>
             (Inl (ErrorString ''Conflict''))])"
    by blast
  then have 5: "IssueToken env_conflict node1 ''node2'' fresh =
       (Inl (ErrorString ''Conflict''),
        state_after fresh 0
          [CreateClusterMember_ev (InstanceServer 0) \<lparr>member_ServerName = ''node2''\<rparr>
             (Inl (ErrorString ''Conflict''))])"
    by (simp add: node1_fields)
  have r6: "replay env_bad_operation
        [CreateClusterMember_ev (client node1) \<lparr>member_ServerName = ''node2''\<rparr>
           (Inr (Operation 2)),
         Get_ev (Operation 2) (api_Operation ''token operation'')] (world fresh) = Some 0"
    using example_replays(11) by (simp add: example_worlds node1_fields)
  from convert r6 example_calls_made(12)
  have "IssueToken env_bad_operation node1 ''node2'' fresh =
       (Inl (WrapError ''Failed converting token operation to join token: ''
               (ErrorString ''not a token operation'')),
        state_after fresh 0
          [CreateClusterMember_ev (client node1) \<lparr>member_ServerName = ''node2''\<rparr>
             (Inr (Operation 2)),
           Get_ev (Operation 2) (api_Operation ''token operation'')])"
    by blast
  then have 6: "IssueToken env_bad_operation node1 ''node2'' fresh =
       (Inl (WrapError ''Failed converting token operation to join token: ''
               (ErrorString ''not a token operation'')),
        state_after fresh 0
          [CreateClusterMember_ev (InstanceServer 0) \<lparr>member_ServerName = ''node2''\<rparr>
             (Inr (Operation 2)),
           Get_ev (Operation 2) (api_Operation ''token operation'')])"
    by (simp add: node1_fields)
  from init have f1: "faithful env_init_fails fresh (Bootstrap env_init_fails node1 fresh)"
    by blast
  from stale have f2: "faithful env_stale fresh (Join env_stale node1 ''tok'' fresh)"
    by blast
  from convert
  have f3: "faithful env_bad_operation fresh (IssueToken env_bad_operation node1 ''node2'' fresh)"
    by blast
  have r1': "replay env_init_fails [init_ev ''preseed'' (Some (ErrorString ''exit status 1''))]
        (world fresh) = Some 0"
    using r1 .
  have r2': "replay env_no_cert
        [configFromToken_ev node1 ''tok'' (Inr config1),
         LoadServerCert_ev ''/var/lib/lxd'' (Inl (ErrorString ''no such file''))]
        (world fresh) = Some 0"
    using r2 by (simp add: node1_fields)
  have r3': "replay env_stale
        (trusted @ [UpdateCluster_ev (InstanceServer 0) config1 ''''
                      (Inl (ErrorString ''precondition failed''))]) (world fresh) = Some 0"
    using r3 by (simp add: node1_fields)
  have r5': "replay env_conflict
        [CreateClusterMember_ev (InstanceServer 0) \<lparr>member_ServerName = ''node2''\<rparr>
           (Inl (ErrorString ''Conflict''))] (world fresh) = Some 0"
    using r5 by (simp add: node1_fields)
  have r6': "replay env_bad_operation
        [CreateClusterMember_ev (InstanceServer 0) \<lparr>member_ServerName = ''node2''\<rparr>
           (Inr (Operation 2)),
         Get_ev (Operation 2) (api_Operation ''token operation'')] (world fresh) = Some 0"
    using r6 by (simp add: node1_fields)
  from f1 f2 f3 r1' 1 r2' 2 r3' 3 4 r5' 5 r6' example_calls_made(12) 6
  show ?thesis by (intro conjI)
qed

end
